theory Spec2Isabelle
  imports Complex_Main
begin

section \<open>Flight physics and race progression of the X-Racer game loop\<close>

text \<open>
  The development embeds the per-frame callback of \<^verbatim>\<open>GameLoop\<close> (\<^verbatim>\<open>src/App.tsx\<close>,
  \<^verbatim>\<open>useFrame\<close>) and the start handler \<^verbatim>\<open>handleStart\<close> of \<^verbatim>\<open>App\<close>.

  JavaScript numbers are idealised in the frame: coordinates, angles, stick values and
  tuning scalars are reals, the counters of the race (\<^verbatim>\<open>score\<close>, \<^verbatim>\<open>currentGate\<close>,
  \<^verbatim>\<open>totalGates\<close>, \<^verbatim>\<open>time\<close>) are integers. Where rounding decides a property, in the
  drag step, the physics update is given a second time in double precision
  (\<open>physicsUpdate64\<close>). Infinities and NaN are outside the model.

  The callback reads \<^verbatim>\<open>gameState\<close> from the props of the render it belongs to and
  writes through \<^verbatim>\<open>setGameState(prev => ...)\<close>, which React applies to the current
  state. The two are kept apart: \<open>frameCallback\<close> takes the race state it reads as a
  separate argument, and \<open>useFrame\<close> is the callback of a render that is up to date.
\<close>

subsection \<open>Vectors and Euler angles of three.js\<close>

datatype Vector3 = Vector3 (vx: real) (vy: real) (vz: real)

text \<open>Euler angles; the order is the library default \<^verbatim>\<open>'XYZ'\<close>, never changed by the code.\<close>

datatype Euler = Euler (ex: real) (ey: real) (ez: real)

datatype Quaternion = Quaternion (qx: real) (qy: real) (qz: real) (qw: real)

definition add :: "Vector3 \<Rightarrow> Vector3 \<Rightarrow> Vector3" where
  "add a b = Vector3 (vx a + vx b) (vy a + vy b) (vz a + vz b)"

definition multiplyScalar :: "Vector3 \<Rightarrow> real \<Rightarrow> Vector3" where
  "multiplyScalar a s = Vector3 (vx a * s) (vy a * s) (vz a * s)"

definition lengthSq :: "Vector3 \<Rightarrow> real" where
  "lengthSq a = vx a * vx a + vy a * vy a + vz a * vz a"

definition length_v :: "Vector3 \<Rightarrow> real" where
  "length_v a = sqrt (lengthSq a)"

definition distanceToSquared :: "Vector3 \<Rightarrow> Vector3 \<Rightarrow> real" where
  "distanceToSquared a b =
     (let dx = vx a - vx b; dy = vy a - vy b; dz = vz a - vz b
      in dx * dx + dy * dy + dz * dz)"

definition distanceTo :: "Vector3 \<Rightarrow> Vector3 \<Rightarrow> real" where
  "distanceTo a b = sqrt (distanceToSquared a b)"

text \<open>\<^verbatim>\<open>a.lerp(b, alpha)\<close>: each component moves by \<^verbatim>\<open>(b - a) * alpha\<close>.\<close>

definition lerp :: "Vector3 \<Rightarrow> Vector3 \<Rightarrow> real \<Rightarrow> Vector3" where
  "lerp a b alpha =
     Vector3 (vx a + (vx b - vx a) * alpha)
             (vy a + (vy b - vy a) * alpha)
             (vz a + (vz b - vz a) * alpha)"

text \<open>\<^verbatim>\<open>Quaternion.setFromEuler\<close>, case \<^verbatim>\<open>'XYZ'\<close>.\<close>

definition setFromEuler :: "Euler \<Rightarrow> Quaternion" where
  "setFromEuler e =
     (let c1 = cos (ex e / 2); c2 = cos (ey e / 2); c3 = cos (ez e / 2);
          s1 = sin (ex e / 2); s2 = sin (ey e / 2); s3 = sin (ez e / 2)
      in Quaternion (s1 * c2 * c3 + c1 * s2 * s3)
                    (c1 * s2 * c3 - s1 * c2 * s3)
                    (c1 * c2 * s3 + s1 * s2 * c3)
                    (c1 * c2 * c3 - s1 * s2 * s3))"

text \<open>\<^verbatim>\<open>Vector3.applyQuaternion\<close>: \<^verbatim>\<open>v + q.w * t + cross(q.xyz, t)\<close> with
  \<^verbatim>\<open>t = 2 * cross(q.xyz, v)\<close>.\<close>

definition applyQuaternion :: "Vector3 \<Rightarrow> Quaternion \<Rightarrow> Vector3" where
  "applyQuaternion v q =
     (let tx = 2 * (qy q * vz v - qz q * vy v);
          ty = 2 * (qz q * vx v - qx q * vz v);
          tz = 2 * (qx q * vy v - qy q * vx v)
      in Vector3 (vx v + qw q * tx + qy q * tz - qz q * ty)
                 (vy v + qw q * ty + qz q * tx - qx q * tz)
                 (vz v + qw q * tz + qx q * ty - qy q * tx))"

definition applyEuler :: "Vector3 \<Rightarrow> Euler \<Rightarrow> Vector3" where
  "applyEuler v e = applyQuaternion v (setFromEuler e)"

subsection \<open>The types of \<^verbatim>\<open>types.ts\<close>\<close>

record ShipStats =
  speed :: real
  durability :: real
  handling :: real

datatype Chassis = scout | interceptor | heavy

record ShipConfig =
  chassis :: Chassis
  engineColor :: string
  glowIntensity :: real
  stats :: ShipStats

record GameState =
  isPlaying :: bool
  score :: int
  time :: int
  currentGate :: int
  totalGates :: int
  briefing :: string
  isGameOver :: bool

record ControlState =
  throttle :: real
  yaw :: real
  pitch :: real
  roll :: real

subsection \<open>Constants\<close>

definition DRAG :: real where "DRAG = 0.94"
definition ROTATION_SPEED :: real where "ROTATION_SPEED = 0.04"
definition THRUST_POWER :: real where "THRUST_POWER = 0.03"
definition GATE_DETECTION_RADIUS :: real where "GATE_DETECTION_RADIUS = 1.2"

subsection \<open>State of the game loop\<close>

text \<open>The three \<^verbatim>\<open>useRef\<close> cells of \<^verbatim>\<open>GameLoop\<close>.\<close>

record Craft =
  velocity :: Vector3
  position :: Vector3
  rotation :: Euler

text \<open>The render camera: its position and the argument of the latest
  \<^verbatim>\<open>camera.lookAt\<close> call (\<open>None\<close> before the first call).\<close>

record Camera =
  cam_position :: Vector3
  cam_lookAt :: "Vector3 option"

text \<open>The props of \<^verbatim>\<open>GameLoop\<close> other than \<^verbatim>\<open>gameState\<close> and \<^verbatim>\<open>setGameState\<close>.\<close>

record Props =
  controls :: ControlState
  shipConfig :: ShipConfig
  shipScale :: real
  gates :: "Vector3 list"
  arEnabled :: bool

record World =
  showConfig :: bool
  gameState :: GameState
  craft :: Craft
  camera :: Camera

text \<open>The values the refs are created with (lines 82 to 84).\<close>

definition spawn :: Craft where
  "spawn = \<lparr>velocity = Vector3 0 0 0, position = Vector3 0 1.5 (-8), rotation = Euler 0 pi 0\<rparr>"

text \<open>The initial \<^verbatim>\<open>useState\<close> value of \<^verbatim>\<open>gameState\<close> in \<^verbatim>\<open>App\<close>.\<close>

definition initialGameState :: GameState where
  "initialGameState =
     \<lparr>isPlaying = False, score = 0, time = 0, currentGate = 0, totalGates = 5,
      briefing = ''System Check: Green. Awaiting Ignition.'', isGameOver = False\<rparr>"

text \<open>The camera as \<^verbatim>\<open>PerspectiveCamera makeDefault position={[0, 1.6, 5]}\<close> creates it.\<close>

definition initialCamera :: Camera where
  "initialCamera = \<lparr>cam_position = Vector3 0 1.6 5, cam_lookAt = None\<rparr>"

definition initialWorld :: World where
  "initialWorld =
     \<lparr>showConfig = True, gameState = initialGameState, craft = spawn, camera = initialCamera\<rparr>"

text \<open>The racing course layout of \<^verbatim>\<open>App\<close>.\<close>

definition courseGates :: "Vector3 list" where
  "courseGates =
     [Vector3 0 1.8 (-12), Vector3 10 3 (-25), Vector3 (-8) 1.5 (-40),
      Vector3 5 5 (-55), Vector3 0 2 (-75)]"

subsection \<open>The frame callback\<close>

text \<open>Lines 89 to 103: thrust along the forward direction of the rotation before its
  update, rotation from the sticks, drag, position.\<close>

definition physicsUpdate :: "ControlState \<Rightarrow> ShipConfig \<Rightarrow> Craft \<Rightarrow> Craft" where
  "physicsUpdate c cfg s =
     (let forward = applyEuler (Vector3 0 0 (-1)) (rotation s);
          thrust = multiplyScalar forward (throttle c * THRUST_POWER * (speed (stats cfg) / 5));
          v1 = add (velocity s) thrust;
          r = rotation s;
          r1 = Euler (ex r + pitch c * ROTATION_SPEED * (handling (stats cfg) / 5))
                     (ey r - yaw c * ROTATION_SPEED * (handling (stats cfg) / 5))
                     (ez r - roll c * ROTATION_SPEED * (handling (stats cfg) / 5));
          v2 = multiplyScalar v1 DRAG
      in \<lparr>velocity = v2, position = add (position s) v2, rotation = r1\<rparr>)"

text \<open>Lines 105 to 118: per-axis clamp in AR, reset to the spawn point beyond radius 150
  otherwise.\<close>

definition boundaryEnforcement :: "bool \<Rightarrow> Craft \<Rightarrow> Craft" where
  "boundaryEnforcement ar s =
     (if ar then
        s\<lparr>position :=
            Vector3 (min 15 (max (-15) (vx (position s))))
                    (min 10 (max 0.2 (vy (position s))))
                    (min (-2) (max (-40) (vz (position s))))\<rparr>
      else if length_v (position s) > 150 then
        s\<lparr>position := Vector3 0 1.5 (-8), velocity := Vector3 0 0 0\<rparr>
      else s)"

text \<open>\<^verbatim>\<open>gates[i]\<close>: \<^verbatim>\<open>undefined\<close> outside the array.\<close>

definition gateAt :: "Vector3 list \<Rightarrow> int \<Rightarrow> Vector3 option" where
  "gateAt gs i = (if 0 \<le> i \<and> i < int (length gs) then Some (gs ! nat i) else None)"

text \<open>Lines 120 to 132. The lookup and the test for the last gate read \<^verbatim>\<open>gameState\<close>,
  the race state of the render the callback belongs to (\<open>snap\<close>); the two updaters are
  applied to \<^verbatim>\<open>prev\<close>, the current race state.\<close>

definition gateUpdate ::
  "Vector3 list \<Rightarrow> real \<Rightarrow> Vector3 \<Rightarrow> GameState \<Rightarrow> GameState \<Rightarrow> GameState" where
  "gateUpdate gs scale p snap prev =
     (case gateAt gs (currentGate snap) of
        None \<Rightarrow> prev
      | Some gateVec \<Rightarrow>
          if distanceTo p gateVec < GATE_DETECTION_RADIUS * (scale + 0.5) then
            if currentGate snap = int (length gs) - 1 then
              prev\<lparr>isGameOver := True, isPlaying := False\<rparr>
            else
              prev\<lparr>currentGate := currentGate prev + 1, score := score prev + 100\<rparr>
          else prev)"

text \<open>Gate detection in a callback whose render is up to date: it reads the state it
  updates.\<close>

definition gateDetection :: "Vector3 list \<Rightarrow> real \<Rightarrow> Vector3 \<Rightarrow> GameState \<Rightarrow> GameState" where
  "gateDetection gs scale p g = gateUpdate gs scale p g g"

text \<open>Lines 134 to 148.\<close>

definition cameraHandling :: "bool \<Rightarrow> Craft \<Rightarrow> Camera \<Rightarrow> Camera" where
  "cameraHandling ar s cam =
     (if ar then
        (let cam1 = cam\<lparr>cam_position := Vector3 0 1.6 0\<rparr>;
             lookTarget = position s
         in if distanceTo lookTarget (cam_position cam1) > 0.1
            then cam1\<lparr>cam_lookAt := Some lookTarget\<rparr>
            else cam1)
      else
        (let camOffset = applyEuler (Vector3 0 1.5 6) (rotation s)
         in cam\<lparr>cam_position := lerp (cam_position cam) (add (position s) camOffset) 0.12,
                cam_lookAt := Some (position s)\<rparr>))"

definition racing :: "GameState \<Rightarrow> bool" where
  "racing g \<longleftrightarrow> isPlaying g \<and> \<not> isGameOver g"

text \<open>The callback handed to \<^verbatim>\<open>useFrame\<close> (lines 86 to 149). \<open>snap\<close> is the
  \<^verbatim>\<open>gameState\<close> of the render that created the callback; \<open>w\<close> holds what is current
  when it runs: the race state React holds, the refs and the camera.\<close>

definition frameCallback :: "GameState \<Rightarrow> Props \<Rightarrow> World \<Rightarrow> World" where
  "frameCallback snap p w =
     (if \<not> isPlaying snap \<or> isGameOver snap then w
      else
        (let s1 = physicsUpdate (controls p) (shipConfig p) (craft w);
             s2 = boundaryEnforcement (arEnabled p) s1
         in w\<lparr>gameState := gateUpdate (gates p) (shipScale p) (position s2) snap (gameState w),
              craft := s2,
              camera := cameraHandling (arEnabled p) s2 (camera w)\<rparr>))"

text \<open>A frame whose callback comes from a render of the current race state.\<close>

definition useFrame :: "Props \<Rightarrow> World \<Rightarrow> World" where
  "useFrame p w = frameCallback (gameState w) p w"

text \<open>A run of frames with a render between any two of them, one \<^verbatim>\<open>Props\<close> value per
  frame.\<close>

fun frames :: "Props list \<Rightarrow> World \<Rightarrow> World" where
  "frames [] w = w"
| "frames (p # ps) w = frames ps (useFrame p w)"

text \<open>A run of callbacks in general. Each entry tells whether \<^verbatim>\<open>GameLoop\<close> has been
  rendered again since the callback before it: if so the callback reads the current race
  state, if not it still reads the race state of the last render.\<close>

fun callbacks :: "GameState \<Rightarrow> (bool \<times> Props) list \<Rightarrow> World \<Rightarrow> World" where
  "callbacks snap [] w = w"
| "callbacks snap ((rendered, p) # fs) w =
     (let snap' = (if rendered then gameState w else snap)
      in callbacks snap' fs (frameCallback snap' p w))"

subsection \<open>The start handler\<close>

text \<open>\<^verbatim>\<open>handleStart\<close> up to its \<^verbatim>\<open>await\<close>, and from the \<^verbatim>\<open>await\<close> on; the argument
  is the text \<^verbatim>\<open>generateBriefing\<close> resolved to.\<close>

definition handleStart_request :: "World \<Rightarrow> World" where
  "handleStart_request w =
     w\<lparr>showConfig := False,
       gameState := (gameState w)\<lparr>briefing := ''Requesting Flight Clearance...''\<rparr>\<rparr>"

definition handleStart_resume :: "string \<Rightarrow> World \<Rightarrow> World" where
  "handleStart_resume b w =
     w\<lparr>gameState := (gameState w)\<lparr>isPlaying := True, briefing := b, currentGate := 0,
                                   score := 0, time := 0, isGameOver := False\<rparr>\<rparr>"

definition handleStart :: "string \<Rightarrow> World \<Rightarrow> World" where
  "handleStart b w = handleStart_resume b (handleStart_request w)"

subsection \<open>Concrete inputs\<close>

text \<open>The initial \<^verbatim>\<open>useState\<close> values of \<^verbatim>\<open>controls\<close>, \<^verbatim>\<open>shipConfig\<close>,
  \<^verbatim>\<open>shipScale\<close> and \<^verbatim>\<open>arEnabled\<close> in \<^verbatim>\<open>App\<close>, as the props of the loop.\<close>

definition initialControls :: ControlState where
  "initialControls = \<lparr>throttle = 0, yaw = 0, pitch = 0, roll = 0\<rparr>"

definition initialShipConfig :: ShipConfig where
  "initialShipConfig =
     \<lparr>chassis = interceptor, engineColor = ''#00ffff'', glowIntensity = 1.0,
      stats = \<lparr>speed = 7, durability = 4, handling = 8\<rparr>\<rparr>"

definition initialProps :: Props where
  "initialProps =
     \<lparr>controls = initialControls, shipConfig = initialShipConfig, shipScale = 1.0,
      gates = courseGates, arEnabled = False\<rparr>"

text \<open>A race under way at gate \<open>i\<close> with score \<open>n\<close> and the craft \<open>s\<close>.\<close>

definition raceAt :: "int \<Rightarrow> int \<Rightarrow> Craft \<Rightarrow> World" where
  "raceAt i n s =
     \<lparr>showConfig = False,
      gameState = initialGameState\<lparr>isPlaying := True, currentGate := i, score := n\<rparr>,
      craft = s, camera = initialCamera\<rparr>"

text \<open>A craft at rest at \<open>p\<close>, heading as at the spawn.\<close>

definition restingAt :: "Vector3 \<Rightarrow> Craft" where
  "restingAt p = spawn\<lparr>position := p\<rparr>"

subsection \<open>Double precision\<close>

text \<open>
  A double is modelled by the real number it denotes; the sign of zero is not
  represented, and no operation below overflows.

  Rounding to the nearest integer, a tie going to the even one.
\<close>

definition rne :: "real \<Rightarrow> int" where
  "rne y =
     (let n = \<lfloor>y\<rfloor>; r = y - of_int n
      in if r < 1 / 2 then n else if 1 / 2 < r then n + 1 else if even n then n else n + 1)"

text \<open>The spacing of the doubles around \<open>x\<close>: \<open>2 powi (- 1074)\<close> below the normal
  range, and \<open>2 powi (e - 52)\<close> where \<open>2 powi e \<le> \<bar>x\<bar> < 2 powi (e + 1)\<close>.\<close>

definition ulp64 :: "real \<Rightarrow> real" where
  "ulp64 x =
     (if \<bar>x\<bar> < 2 powi (- 1022) then 2 powi (- 1074) else 2 powi (\<lfloor>log 2 \<bar>x\<bar>\<rfloor> - 52))"

text \<open>The result of an arithmetic operation whose exact value is \<open>x\<close>: the nearest
  double, a tie going to the even significand.\<close>

definition fl :: "real \<Rightarrow> real" where
  "fl x = of_int (rne (x / ulp64 x)) * ulp64 x"

text \<open>The reals that are doubles.\<close>

definition binary64 :: "real \<Rightarrow> bool" where
  "binary64 x \<longleftrightarrow> fl x = x"

text \<open>\<^verbatim>\<open>Vector3.add\<close> and \<^verbatim>\<open>Vector3.multiplyScalar\<close> on doubles.\<close>

definition add64 :: "Vector3 \<Rightarrow> Vector3 \<Rightarrow> Vector3" where
  "add64 a b = Vector3 (fl (vx a + vx b)) (fl (vy a + vy b)) (fl (vz a + vz b))"

definition multiplyScalar64 :: "Vector3 \<Rightarrow> real \<Rightarrow> Vector3" where
  "multiplyScalar64 a s = Vector3 (fl (vx a * s)) (fl (vy a * s)) (fl (vz a * s))"

text \<open>Lines 89 to 103 on doubles, every operation rounded. The literals \<^verbatim>\<open>0.03\<close>,
  \<^verbatim>\<open>0.04\<close> and \<^verbatim>\<open>0.94\<close> denote the nearest doubles. The first argument stands for
  \<^verbatim>\<open>Vector3.applyEuler\<close> as the library computes it; its rounding is left open.\<close>

definition physicsUpdate64 ::
  "(Vector3 \<Rightarrow> Euler \<Rightarrow> Vector3) \<Rightarrow> ControlState \<Rightarrow> ShipConfig \<Rightarrow> Craft \<Rightarrow> Craft" where
  "physicsUpdate64 applyEuler64 c cfg s =
     (let forward = applyEuler64 (Vector3 0 0 (-1)) (rotation s);
          thrust = multiplyScalar64 forward
                     (fl (fl (throttle c * fl THRUST_POWER) * fl (speed (stats cfg) / 5)));
          v1 = add64 (velocity s) thrust;
          r = rotation s;
          r1 = Euler (fl (ex r + fl (fl (pitch c * fl ROTATION_SPEED) * fl (handling (stats cfg) / 5))))
                     (fl (ey r - fl (fl (yaw c * fl ROTATION_SPEED) * fl (handling (stats cfg) / 5))))
                     (fl (ez r - fl (fl (roll c * fl ROTATION_SPEED) * fl (handling (stats cfg) / 5))));
          v2 = multiplyScalar64 v1 (fl DRAG)
      in \<lparr>velocity = v2, position = add64 (position s) v2, rotation = r1\<rparr>)"

text \<open>The spawn pose on doubles: \<^verbatim>\<open>Math.PI\<close> is the double \<open>884279719003555 / 2 ^ 48\<close>.\<close>

definition spawn64 :: Craft where
  "spawn64 =
     \<lparr>velocity = Vector3 0 0 0, position = Vector3 0 1.5 (-8),
      rotation = Euler 0 (884279719003555 / 2 ^ 48) 0\<rparr>"

text \<open>Vectors and Euler angles whose components are doubles.\<close>

definition binary64_v :: "Vector3 \<Rightarrow> bool" where
  "binary64_v a \<longleftrightarrow> binary64 (vx a) \<and> binary64 (vy a) \<and> binary64 (vz a)"

definition binary64_e :: "Euler \<Rightarrow> bool" where
  "binary64_e a \<longleftrightarrow> binary64 (ex a) \<and> binary64 (ey a) \<and> binary64 (ez a)"

text \<open>Frames with the sticks released, as far as the physics update goes:
  \<open>coasting R cfg n s\<close> is the craft after \<open>n\<close> such updates, and \<open>coast n v\<close> is what
  \<open>n\<close> drag steps make of one velocity component.\<close>

fun coast :: "nat \<Rightarrow> real \<Rightarrow> real" where
  "coast 0 v = v"
| "coast (Suc n) v = coast n (fl (v * fl DRAG))"

fun coasting :: "(Vector3 \<Rightarrow> Euler \<Rightarrow> Vector3) \<Rightarrow> ShipConfig \<Rightarrow> nat \<Rightarrow> Craft \<Rightarrow> Craft" where
  "coasting R cfg 0 s = s"
| "coasting R cfg (Suc n) s = coasting R cfg n (physicsUpdate64 R initialControls cfg s)"


section \<open>Properties\<close>

subsection \<open>Vector arithmetic\<close>

lemma multiplyScalar_zero: "multiplyScalar v 0 = Vector3 0 0 0"
  by (simp add: multiplyScalar_def)

lemma add_zero_right: "add v (Vector3 0 0 0) = v"
  by (simp add: add_def)

lemma lengthSq_nonneg: "0 \<le> lengthSq v"
  by (simp add: lengthSq_def)

lemma length_v_nonneg: "0 \<le> length_v v"
  by (simp add: length_v_def lengthSq_nonneg)

lemma lengthSq_multiplyScalar: "lengthSq (multiplyScalar v s) = s * s * lengthSq v"
  by (simp add: lengthSq_def multiplyScalar_def algebra_simps)

lemma length_v_multiplyScalar: "length_v (multiplyScalar v s) = \<bar>s\<bar> * length_v v"
  by (simp add: length_v_def lengthSq_multiplyScalar real_sqrt_mult)

lemma length_v_zero: "length_v (Vector3 0 0 0) = 0"
  by (simp add: length_v_def lengthSq_def)

lemma distanceToSquared_nonneg: "0 \<le> distanceToSquared a b"
  by (simp add: distanceToSquared_def Let_def)

lemma distanceTo_less: "0 \<le> r \<Longrightarrow> distanceToSquared a b < r * r \<Longrightarrow> distanceTo a b < r"
  unfolding distanceTo_def by (rule real_less_lsqrt) (simp_all add: power2_eq_square)

lemma length_v_greater: "r * r < lengthSq a \<Longrightarrow> r < length_v a"
  unfolding length_v_def by (rule real_less_rsqrt) (simp add: power2_eq_square)

lemma length_v_le: "0 \<le> r \<Longrightarrow> lengthSq a \<le> r * r \<Longrightarrow> length_v a \<le> r"
  unfolding length_v_def by (rule real_le_lsqrt) (simp_all add: power2_eq_square)

subsection \<open>Unfolding a frame\<close>

lemma useFrame_not_racing: "\<not> racing (gameState w) \<Longrightarrow> useFrame p w = w"
  by (auto simp add: useFrame_def frameCallback_def racing_def)

lemma useFrame_racing:
  "racing (gameState w) \<Longrightarrow>
   useFrame p w =
     w\<lparr>gameState := gateDetection (gates p) (shipScale p)
          (position (boundaryEnforcement (arEnabled p) (physicsUpdate (controls p) (shipConfig p) (craft w))))
          (gameState w),
       craft := boundaryEnforcement (arEnabled p) (physicsUpdate (controls p) (shipConfig p) (craft w)),
       camera := cameraHandling (arEnabled p)
          (boundaryEnforcement (arEnabled p) (physicsUpdate (controls p) (shipConfig p) (craft w)))
          (camera w)\<rparr>"
  by (simp add: useFrame_def frameCallback_def gateDetection_def racing_def Let_def)

lemma frames_not_racing: "\<not> racing (gameState w) \<Longrightarrow> frames ps w = w"
  by (induction ps) (simp_all add: useFrame_not_racing)

lemma applyEuler_spawn_fwd: "applyEuler (Vector3 0 0 (-1)) (Euler 0 pi 0) = Vector3 0 0 1"
  by (simp add: applyEuler_def setFromEuler_def applyQuaternion_def Let_def)

lemma applyEuler_spawn_off: "applyEuler (Vector3 0 1.5 6) (Euler 0 pi 0) = Vector3 0 1.5 (-6)"
  by (simp add: applyEuler_def setFromEuler_def applyQuaternion_def Let_def)

subsection \<open>Gate progression\<close>

text \<open>
  Claim C1. In a frame of a race that is Racing, if the gate at \<^verbatim>\<open>currentGate\<close>
  exists, is not the last one, and the craft position of that frame (after the physics
  update and the boundary enforcement, where the loop measures it) is closer to the gate
  than \<open>1.2 * (shipScale + 0.5)\<close>, then the frame adds exactly 1 to \<^verbatim>\<open>currentGate\<close>
  and exactly 100 to \<^verbatim>\<open>score\<close>, changes no other field of the race state, and the
  race stays Racing.
\<close>

theorem gate_pass_advances:
  assumes "racing (gameState w)"
    and "gateAt (gates p) (currentGate (gameState w)) = Some gateVec"
    and "distanceTo (position (craft (useFrame p w))) gateVec < 1.2 * (shipScale p + 0.5)"
    and "currentGate (gameState w) \<noteq> int (length (gates p)) - 1"
  shows "gameState (useFrame p w) =
           (gameState w)\<lparr>currentGate := currentGate (gameState w) + 1,
                         score := score (gameState w) + 100\<rparr>
         \<and> isPlaying (gameState (useFrame p w)) \<and> \<not> isGameOver (gameState (useFrame p w))"
  using assms
  by (simp add: useFrame_racing gateDetection_def gateUpdate_def GATE_DETECTION_RADIUS_def)
     (simp add: racing_def)

lemma raceAt_simps:
  "gameState (raceAt i n s) = initialGameState\<lparr>isPlaying := True, currentGate := i, score := n\<rparr>"
  "craft (raceAt i n s) = s" "camera (raceAt i n s) = initialCamera"
  "showConfig (raceAt i n s) = False"
  by (simp_all add: raceAt_def)

lemma racing_raceAt: "racing (gameState (raceAt i n s))"
  by (simp add: raceAt_def racing_def initialGameState_def)

lemma initialProps_simps:
  "controls initialProps = initialControls" "shipConfig initialProps = initialShipConfig"
  "shipScale initialProps = 1" "gates initialProps = courseGates" "arEnabled initialProps = False"
  by (simp_all add: initialProps_def)

lemma physicsUpdate_resting:
  "physicsUpdate initialControls cfg (restingAt p) = restingAt p"
  by (simp add: physicsUpdate_def initialControls_def restingAt_def spawn_def Let_def
        multiplyScalar_def add_def)

lemma restingAt_simps:
  "position (restingAt p) = p" "velocity (restingAt p) = Vector3 0 0 0"
  "rotation (restingAt p) = Euler 0 pi 0"
  by (simp_all add: restingAt_def spawn_def)

lemma free_inside:
  "lengthSq p \<le> 22500 \<Longrightarrow> boundaryEnforcement False (restingAt p) = restingAt p"
  using length_v_le [of 150 p] by (simp add: boundaryEnforcement_def restingAt_simps)

lemma position_frame_resting:
  "lengthSq p \<le> 22500 \<Longrightarrow>
   position (craft (useFrame initialProps (raceAt i n (restingAt p)))) = p"
proof -
  assume a: "lengthSq p \<le> 22500"
  have "craft (useFrame initialProps (raceAt i n (restingAt p)))
          = boundaryEnforcement False (physicsUpdate initialControls initialShipConfig (restingAt p))"
    by (subst useFrame_racing [OF racing_raceAt]) (simp add: raceAt_simps(2) initialProps_simps)
  also have "\<dots> = restingAt p"
    by (simp only: physicsUpdate_resting free_inside [OF a])
  finally show ?thesis by (simp add: restingAt_simps)
qed

text \<open>The scenario of the specification: the craft at rest at \<open>(0, 1.8, -12.05)\<close>,
  scale 1, gate 0 at \<open>(0, 1.8, -12)\<close>.\<close>

theorem gate_pass_advances_witness:
  "racing (gameState (raceAt 0 0 (restingAt (Vector3 0 1.8 (-12.05)))))
   \<and> gateAt (gates initialProps) 0 = Some (Vector3 0 1.8 (-12))
   \<and> distanceTo (Vector3 0 1.8 (-12.05)) (Vector3 0 1.8 (-12)) < 1.2 * (1.0 + 0.5)
   \<and> currentGate (gameState (useFrame initialProps (raceAt 0 0 (restingAt (Vector3 0 1.8 (-12.05)))))) = 1
   \<and> score (gameState (useFrame initialProps (raceAt 0 0 (restingAt (Vector3 0 1.8 (-12.05)))))) = 100
   \<and> racing (gameState (useFrame initialProps (raceAt 0 0 (restingAt (Vector3 0 1.8 (-12.05))))))"
proof -
  let ?w = "raceAt 0 0 (restingAt (Vector3 0 1.8 (-12.05)))"
  have r: "racing (gameState ?w)" by (rule racing_raceAt)
  have g: "gateAt (gates initialProps) (currentGate (gameState ?w)) = Some (Vector3 0 1.8 (-12))"
    by (simp add: gateAt_def initialProps_simps courseGates_def raceAt_simps)
  have p: "position (craft (useFrame initialProps ?w)) = Vector3 0 1.8 (-12.05)"
    by (rule position_frame_resting) (simp add: lengthSq_def)
  have d: "distanceTo (Vector3 0 1.8 (-12.05)) (Vector3 0 1.8 (-12)) < 1.2 * (1.0 + 0.5)"
    by (rule distanceTo_less) (simp_all add: distanceToSquared_def Let_def)
  have d': "distanceTo (position (craft (useFrame initialProps ?w))) (Vector3 0 1.8 (-12))
              < 1.2 * (shipScale initialProps + 0.5)"
    unfolding p using d by (simp add: initialProps_simps)
  have l: "currentGate (gameState ?w) \<noteq> int (length (gates initialProps)) - 1"
    by (simp add: initialProps_simps courseGates_def raceAt_simps)
  from gate_pass_advances [OF r g d' l] r g d show ?thesis
    by (simp add: raceAt_simps racing_def)
qed



text \<open>
  Claim C2. In a frame of a race that is Racing, if \<^verbatim>\<open>currentGate\<close> is the last
  index of the gate list and the craft position of that frame is inside the detection
  radius of that gate, the frame sets \<^verbatim>\<open>isGameOver\<close> to true and \<^verbatim>\<open>isPlaying\<close> to
  false and changes nothing else of the race state: the score stays as it was.
\<close>

theorem final_gate_finishes:
  assumes "racing (gameState w)"
    and "gateAt (gates p) (currentGate (gameState w)) = Some gateVec"
    and "currentGate (gameState w) = int (length (gates p)) - 1"
    and "distanceTo (position (craft (useFrame p w))) gateVec < 1.2 * (shipScale p + 0.5)"
  shows "gameState (useFrame p w) = (gameState w)\<lparr>isGameOver := True, isPlaying := False\<rparr>
         \<and> isGameOver (gameState (useFrame p w)) \<and> \<not> isPlaying (gameState (useFrame p w))
         \<and> score (gameState (useFrame p w)) = score (gameState w)"
  using assms
  by (simp add: useFrame_racing gateDetection_def gateUpdate_def GATE_DETECTION_RADIUS_def)

text \<open>The last gate of the course, the craft at rest half a unit beside it.\<close>

theorem final_gate_finishes_witness:
  "racing (gameState (raceAt 4 400 (restingAt (Vector3 0.5 2 (-75)))))
   \<and> gateAt (gates initialProps) 4 = Some (Vector3 0 2 (-75))
   \<and> (4::int) = int (length (gates initialProps)) - 1
   \<and> distanceTo (Vector3 0.5 2 (-75)) (Vector3 0 2 (-75)) < 1.2 * (1.0 + 0.5)
   \<and> isGameOver (gameState (useFrame initialProps (raceAt 4 400 (restingAt (Vector3 0.5 2 (-75))))))
   \<and> \<not> isPlaying (gameState (useFrame initialProps (raceAt 4 400 (restingAt (Vector3 0.5 2 (-75))))))
   \<and> score (gameState (useFrame initialProps (raceAt 4 400 (restingAt (Vector3 0.5 2 (-75)))))) = 400"
proof -
  let ?w = "raceAt 4 400 (restingAt (Vector3 0.5 2 (-75)))"
  have r: "racing (gameState ?w)" by (rule racing_raceAt)
  have g: "gateAt (gates initialProps) (currentGate (gameState ?w)) = Some (Vector3 0 2 (-75))"
    by (simp add: gateAt_def initialProps_simps courseGates_def raceAt_simps)
  have p: "position (craft (useFrame initialProps ?w)) = Vector3 0.5 2 (-75)"
    by (rule position_frame_resting) (simp add: lengthSq_def)
  have d: "distanceTo (Vector3 0.5 2 (-75)) (Vector3 0 2 (-75)) < 1.2 * (1.0 + 0.5)"
    by (rule distanceTo_less) (simp_all add: distanceToSquared_def Let_def)
  have d': "distanceTo (position (craft (useFrame initialProps ?w))) (Vector3 0 2 (-75))
              < 1.2 * (shipScale initialProps + 0.5)"
    unfolding p using d by (simp add: initialProps_simps)
  have l: "currentGate (gameState ?w) = int (length (gates initialProps)) - 1"
    by (simp add: initialProps_simps courseGates_def raceAt_simps)
  from final_gate_finishes [OF r g l d'] r g l d show ?thesis
    by (simp add: raceAt_simps)
qed




subsection \<open>Boundary enforcement\<close>

text \<open>
  Claim C3. In confined (AR) mode, whatever the position before, after the boundary
  enforcement \<open>z\<close> lies in \<open>[-40, -2]\<close>, \<open>x\<close> in \<open>[-15, 15]\<close> and \<open>y\<close> in \<open>[0.2, 10]\<close>;
  each axis saturates on its own (a coordinate beyond a bound becomes that bound, one
  within its interval is kept), and the velocity is not modified.
\<close>

theorem confined_clamp:
  "(let q = position s; q' = position (boundaryEnforcement True s) in
      - 40 \<le> vz q' \<and> vz q' \<le> - 2 \<and> - 15 \<le> vx q' \<and> vx q' \<le> 15 \<and> 0.2 \<le> vy q' \<and> vy q' \<le> 10
      \<and> (vz q < - 40 \<longrightarrow> vz q' = - 40) \<and> (- 2 < vz q \<longrightarrow> vz q' = - 2)
      \<and> (- 40 \<le> vz q \<and> vz q \<le> - 2 \<longrightarrow> vz q' = vz q)
      \<and> (vx q < - 15 \<longrightarrow> vx q' = - 15) \<and> (15 < vx q \<longrightarrow> vx q' = 15)
      \<and> (- 15 \<le> vx q \<and> vx q \<le> 15 \<longrightarrow> vx q' = vx q)
      \<and> (vy q < 0.2 \<longrightarrow> vy q' = 0.2) \<and> (10 < vy q \<longrightarrow> vy q' = 10)
      \<and> (0.2 \<le> vy q \<and> vy q \<le> 10 \<longrightarrow> vy q' = vy q))
   \<and> velocity (boundaryEnforcement True s) = velocity s
   \<and> rotation (boundaryEnforcement True s) = rotation s"
  by (simp add: boundaryEnforcement_def Let_def min_def max_def)

text \<open>Above every upper bound, below every lower bound, and inside the box.\<close>

theorem confined_clamp_witness:
  "position (boundaryEnforcement True
      \<lparr>velocity = Vector3 1 2 3, position = Vector3 20 15 0, rotation = Euler 0 pi 0\<rparr>)
     = Vector3 15 10 (- 2)
   \<and> position (boundaryEnforcement True
      \<lparr>velocity = Vector3 1 2 3, position = Vector3 (- 20) (- 1) (- 50), rotation = Euler 0 pi 0\<rparr>)
     = Vector3 (- 15) 0.2 (- 40)
   \<and> position (boundaryEnforcement True
      \<lparr>velocity = Vector3 1 2 3, position = Vector3 3 4 (- 5), rotation = Euler 0 pi 0\<rparr>)
     = Vector3 3 4 (- 5)
   \<and> velocity (boundaryEnforcement True
      \<lparr>velocity = Vector3 1 2 3, position = Vector3 20 15 0, rotation = Euler 0 pi 0\<rparr>)
     = Vector3 1 2 3"
  using
    confined_clamp [of "\<lparr>velocity = Vector3 1 2 3, position = Vector3 20 15 0, rotation = Euler 0 pi 0\<rparr>"]
    confined_clamp [of "\<lparr>velocity = Vector3 1 2 3, position = Vector3 (- 20) (- 1) (- 50), rotation = Euler 0 pi 0\<rparr>"]
    confined_clamp [of "\<lparr>velocity = Vector3 1 2 3, position = Vector3 3 4 (- 5), rotation = Euler 0 pi 0\<rparr>"]
  by (simp add: Let_def Vector3.expand)

text \<open>
  Claim C4. In free mode, if the distance of the position from the origin exceeds 150
  before the enforcement, then afterwards the position is exactly \<open>(0, 1.5, -8)\<close> and the
  velocity exactly \<open>(0, 0, 0)\<close>; if it does not exceed 150, position and velocity are left
  as they were.
\<close>

theorem free_mode_recovery:
  "(150 < length_v (position s) \<longrightarrow>
      position (boundaryEnforcement False s) = Vector3 0 1.5 (- 8)
      \<and> velocity (boundaryEnforcement False s) = Vector3 0 0 0)
   \<and> (\<not> 150 < length_v (position s) \<longrightarrow>
      position (boundaryEnforcement False s) = position s
      \<and> velocity (boundaryEnforcement False s) = velocity s)
   \<and> rotation (boundaryEnforcement False s) = rotation s"
  by (simp add: boundaryEnforcement_def)

text \<open>A craft 200 units out, and one exactly on the sphere of radius 150.\<close>

theorem free_mode_recovery_witness:
  "150 < length_v (Vector3 200 0 0)
   \<and> position (boundaryEnforcement False
        \<lparr>velocity = Vector3 1 2 3, position = Vector3 200 0 0, rotation = Euler 0 pi 0\<rparr>)
       = Vector3 0 1.5 (- 8)
   \<and> velocity (boundaryEnforcement False
        \<lparr>velocity = Vector3 1 2 3, position = Vector3 200 0 0, rotation = Euler 0 pi 0\<rparr>)
       = Vector3 0 0 0
   \<and> \<not> 150 < length_v (Vector3 90 120 0)
   \<and> position (boundaryEnforcement False
        \<lparr>velocity = Vector3 1 2 3, position = Vector3 90 120 0, rotation = Euler 0 pi 0\<rparr>)
       = Vector3 90 120 0
   \<and> velocity (boundaryEnforcement False
        \<lparr>velocity = Vector3 1 2 3, position = Vector3 90 120 0, rotation = Euler 0 pi 0\<rparr>)
       = Vector3 1 2 3"
proof -
  have a: "150 < length_v (Vector3 200 0 0)"
    by (rule length_v_greater) (simp add: lengthSq_def)
  have b: "\<not> 150 < length_v (Vector3 90 120 0)"
    using length_v_le [of 150 "Vector3 90 120 0"] by (simp add: lengthSq_def)
  from a b
    free_mode_recovery [of "\<lparr>velocity = Vector3 1 2 3, position = Vector3 200 0 0, rotation = Euler 0 pi 0\<rparr>"]
    free_mode_recovery [of "\<lparr>velocity = Vector3 1 2 3, position = Vector3 90 120 0, rotation = Euler 0 pi 0\<rparr>"]
  show ?thesis by simp
qed

subsection \<open>Velocity and rotation under the boundary enforcement\<close>

lemma boundaryEnforcement_velocity:
  "velocity (boundaryEnforcement ar s) = velocity s \<or> velocity (boundaryEnforcement ar s) = Vector3 0 0 0"
  by (simp add: boundaryEnforcement_def)

lemma boundaryEnforcement_rotation: "rotation (boundaryEnforcement ar s) = rotation s"
  by (simp add: boundaryEnforcement_def)

subsection \<open>Drag in double precision\<close>

lemma rne_upper: "of_int (rne y) \<le> y + 1 / 2"
  unfolding rne_def Let_def by (auto; linarith)

lemma rne_lower: "y - 1 / 2 \<le> of_int (rne y)"
  unfolding rne_def Let_def by (auto; linarith)

lemma rne_near:
  assumes "\<bar>y - of_int n\<bar> < 1 / 2"
  shows "rne y = n"
proof -
  have "\<bar>real_of_int (rne y) - real_of_int n\<bar> < 1"
    using rne_upper [of y] rne_lower [of y] assms by linarith
  then have "\<bar>real_of_int (rne y - n)\<bar> < 1" by simp
  then have "\<bar>rne y - n\<bar> < 1" by linarith
  then show ?thesis by simp
qed

lemma rne_of_int: "rne (of_int n) = n"
  by (rule rne_near) simp

lemma ulp64_pos: "0 < ulp64 x"
  by (simp add: ulp64_def)

lemma ulp64_subnormal: "\<bar>x\<bar> < 2 powi (- 1022) \<Longrightarrow> ulp64 x = 2 powi (- 1074)"
  by (simp add: ulp64_def)

lemma powi_floor_log_le:
  assumes "0 < x"
  shows "2 powi \<lfloor>log 2 x\<rfloor> \<le> x"
proof -
  have "2 powr (of_int \<lfloor>log 2 x\<rfloor>) \<le> 2 powr (log 2 x)"
    by (rule powr_mono) simp_all
  then show ?thesis using assms by (simp add: powr_real_of_int')
qed

lemma powi_split:
  assumes "b \<le> a"
  shows "\<exists>j::nat. (2::real) powi a = 2 ^ j * 2 powi b"
proof -
  have "(2::real) powi a = 2 powi (int (nat (a - b)) + b)" using assms by simp
  also have "\<dots> = 2 powi int (nat (a - b)) * 2 powi b"
    by (rule power_int_add) simp
  also have "\<dots> = 2 ^ nat (a - b) * 2 powi b"
    by (simp only: power_int_of_nat)
  finally show ?thesis by blast
qed

lemma floor_log_ge:
  assumes "2 powi k \<le> x"
  shows "k \<le> \<lfloor>log 2 x\<rfloor>"
proof -
  have p: "(0::real) < 2 powi k" by simp
  with assms have x: "0 < x" by linarith
  have "log 2 (2 powi k) \<le> log 2 x"
    using assms p x by (simp add: log_le_cancel_iff)
  moreover have "log 2 (2 powi k) = of_int k"
    by (simp add: powr_real_of_int' [symmetric] del: powr_real_of_int')
  ultimately show ?thesis by (simp add: le_floor_iff)
qed

lemma ulp64_normal_le:
  assumes "2 powi (- 1022) \<le> \<bar>x\<bar>"
  shows "ulp64 x * 2 ^ 52 \<le> \<bar>x\<bar>"
proof -
  have "(0::real) < 2 powi (- 1022)" by simp
  with assms have x: "0 < \<bar>x\<bar>" by linarith
  have u: "ulp64 x = 2 powi (\<lfloor>log 2 \<bar>x\<bar>\<rfloor> - 52)"
    using assms by (simp add: ulp64_def)
  have "(2::real) powi (\<lfloor>log 2 \<bar>x\<bar>\<rfloor> - 52 + 52) = 2 powi (\<lfloor>log 2 \<bar>x\<bar>\<rfloor> - 52) * 2 powi 52"
    by (rule power_int_add) simp
  then have "ulp64 x * 2 ^ 52 = 2 powi \<lfloor>log 2 \<bar>x\<bar>\<rfloor>"
    by (simp add: u)
  with powi_floor_log_le [OF x] show ?thesis by simp
qed

lemma ulp64_mono:
  assumes "\<bar>x\<bar> \<le> \<bar>v\<bar>"
  shows "\<exists>j::nat. ulp64 v = 2 ^ j * ulp64 x"
proof (cases "\<bar>v\<bar> < 2 powi (- 1022)")
  case True
  with assms have "\<bar>x\<bar> < 2 powi (- 1022)" by linarith
  with True have "ulp64 v = 2 ^ 0 * ulp64 x" by (simp add: ulp64_subnormal)
  then show ?thesis by blast
next
  case False
  then have v: "2 powi (- 1022) \<le> \<bar>v\<bar>" by simp
  have uv: "ulp64 v = 2 powi (\<lfloor>log 2 \<bar>v\<bar>\<rfloor> - 52)" using False by (simp add: ulp64_def)
  show ?thesis
  proof (cases "\<bar>x\<bar> < 2 powi (- 1022)")
    case True
    have "- 1022 \<le> \<lfloor>log 2 \<bar>v\<bar>\<rfloor>" by (rule floor_log_ge [OF v])
    then have "- 1074 \<le> \<lfloor>log 2 \<bar>v\<bar>\<rfloor> - 52" by linarith
    from powi_split [OF this] obtain j :: nat
      where j: "(2::real) powi (\<lfloor>log 2 \<bar>v\<bar>\<rfloor> - 52) = 2 ^ j * 2 powi (- 1074)" by blast
    have "ulp64 v = 2 ^ j * ulp64 x"
      unfolding uv ulp64_subnormal [OF True] by (rule j)
    then show ?thesis by blast
  next
    case False
    then have x: "2 powi (- 1022) \<le> \<bar>x\<bar>" by simp
    have "(0::real) < 2 powi (- 1022)" by simp
    with x have x0: "0 < \<bar>x\<bar>" by linarith
    have ux: "ulp64 x = 2 powi (\<lfloor>log 2 \<bar>x\<bar>\<rfloor> - 52)" using False by (simp add: ulp64_def)
    have "2 powi \<lfloor>log 2 \<bar>x\<bar>\<rfloor> \<le> \<bar>v\<bar>"
      using powi_floor_log_le [OF x0] assms by linarith
    then have "\<lfloor>log 2 \<bar>x\<bar>\<rfloor> \<le> \<lfloor>log 2 \<bar>v\<bar>\<rfloor>" by (rule floor_log_ge)
    then have "\<lfloor>log 2 \<bar>x\<bar>\<rfloor> - 52 \<le> \<lfloor>log 2 \<bar>v\<bar>\<rfloor> - 52" by linarith
    from powi_split [OF this] obtain j :: nat
      where j: "(2::real) powi (\<lfloor>log 2 \<bar>v\<bar>\<rfloor> - 52) = 2 ^ j * 2 powi (\<lfloor>log 2 \<bar>x\<bar>\<rfloor> - 52)"
      by blast
    have "ulp64 v = 2 ^ j * ulp64 x"
      unfolding uv ux by (rule j)
    then show ?thesis by blast
  qed
qed

lemma binary64_multiple:
  assumes "binary64 v" and "\<bar>x\<bar> \<le> \<bar>v\<bar>"
  shows "\<exists>N::int. v = of_int N * ulp64 x"
proof -
  from ulp64_mono [OF assms(2)] obtain j :: nat where j: "ulp64 v = 2 ^ j * ulp64 x" by blast
  have "v = of_int (rne (v / ulp64 v)) * ulp64 v"
    using assms(1) by (simp add: binary64_def fl_def)
  also have "\<dots> = of_int (rne (v / ulp64 v) * 2 ^ j) * ulp64 x"
    by (simp add: j)
  finally show ?thesis by blast
qed

lemma fl_multiple:
  assumes "v = of_int N * ulp64 (v * c)"
  shows "fl (v * c) = of_int (rne (of_int N * c)) * ulp64 (v * c)"
proof -
  define u where "u = ulp64 (v * c)"
  have u: "0 < u" unfolding u_def by (rule ulp64_pos)
  have v: "v = of_int N * u" using assms unfolding u_def .
  have "v * c / u = of_int N * c"
    by (subst v) (use u in simp)
  then show ?thesis by (simp add: fl_def u_def)
qed

lemma rne_scaled_small:
  assumes "0 < c" and "1 - c < 1 / 16" and "c \<le> 1" and "\<bar>N\<bar> \<le> 8"
  shows "rne (of_int N * c) = N"
proof (rule rne_near)
  have "real_of_int N * c - real_of_int N = - (real_of_int N * (1 - c))"
    by (simp add: algebra_simps)
  then have "\<bar>real_of_int N * c - real_of_int N\<bar> = \<bar>real_of_int N\<bar> * \<bar>1 - c\<bar>"
    by (simp only: abs_minus abs_mult)
  also have "\<dots> = \<bar>real_of_int N\<bar> * (1 - c)"
    using assms(3) by simp
  also have "\<dots> \<le> 8 * (1 - c)"
    using assms(3,4) by (intro mult_right_mono) simp_all
  also have "\<dots> < 1 / 2" using assms(2) by simp
  finally show "\<bar>real_of_int N * c - real_of_int N\<bar> < 1 / 2" .
qed

lemma rne_scaled_large:
  assumes "0 < c" and "1 / 18 < 1 - c" and "9 \<le> \<bar>N\<bar>"
  shows "\<bar>rne (of_int N * c)\<bar> < \<bar>N\<bar>"
proof -
  have d: "1 / 2 < 9 * (1 - c)" using assms(2) by simp
  have "9 * (1 - c) \<le> \<bar>real_of_int N\<bar> * (1 - c)"
    using assms(2,3) by (intro mult_right_mono) simp_all
  with d have g: "1 / 2 < \<bar>real_of_int N\<bar> * (1 - c)" by linarith
  show ?thesis
  proof (cases "0 \<le> N")
    case True
    then have n: "\<bar>real_of_int N\<bar> = real_of_int N" by simp
    from g have "real_of_int N * c + 1 / 2 < real_of_int N"
      unfolding n by (simp add: algebra_simps)
    with rne_upper [of "real_of_int N * c"]
    have "real_of_int (rne (of_int N * c)) < real_of_int N" by linarith
    then have up: "rne (of_int N * c) < N" by linarith
    have "0 \<le> real_of_int N * c" using True assms(1) by simp
    with rne_lower [of "real_of_int N * c"]
    have "- 1 < real_of_int (rne (of_int N * c))" by linarith
    then have "- 1 < rne (of_int N * c)" by linarith
    with up True show ?thesis by linarith
  next
    case False
    then have n: "\<bar>real_of_int N\<bar> = - real_of_int N" by simp
    from g have "real_of_int N < real_of_int N * c - 1 / 2"
      unfolding n by (simp add: algebra_simps)
    with rne_lower [of "real_of_int N * c"]
    have "real_of_int N < real_of_int (rne (of_int N * c))" by linarith
    then have lo: "N < rne (of_int N * c)" by linarith
    have "real_of_int N * c \<le> 0" using False assms(1) by (simp add: mult_le_0_iff)
    with rne_upper [of "real_of_int N * c"]
    have "real_of_int (rne (of_int N * c)) < 1" by linarith
    then have "rne (of_int N * c) < 1" by linarith
    with lo False show ?thesis by linarith
  qed
qed

lemma fl_error:
  assumes "2 powi (- 1022) \<le> \<bar>x\<bar>"
  shows "\<bar>fl x - x\<bar> \<le> \<bar>x\<bar> / 2 ^ 53"
proof -
  define u where "u = ulp64 x"
  have u: "0 < u" unfolding u_def by (rule ulp64_pos)
  have le: "u * 2 ^ 52 \<le> \<bar>x\<bar>" unfolding u_def by (rule ulp64_normal_le [OF assms])
  have "fl x - x = (of_int (rne (x / u)) - x / u) * u"
    using u by (simp add: fl_def u_def field_simps)
  then have "\<bar>fl x - x\<bar> = \<bar>of_int (rne (x / u)) - x / u\<bar> * u"
    using u by (simp add: abs_mult)
  also have "\<dots> \<le> (1 / 2) * u"
  proof (rule mult_right_mono)
    show "\<bar>real_of_int (rne (x / u)) - x / u\<bar> \<le> 1 / 2"
      using rne_upper [of "x / u"] rne_lower [of "x / u"] by linarith
    show "0 \<le> u" using u by simp
  qed
  also have "\<dots> \<le> \<bar>x\<bar> / 2 ^ 53" using le by simp
  finally show ?thesis .
qed

lemma fl_DRAG_bounds: "0 < fl DRAG" "fl DRAG \<le> 1" "1 / 18 < 1 - fl DRAG" "1 - fl DRAG < 1 / 16"
proof -
  have n: "2 powi (- 1022) \<le> \<bar>DRAG\<bar>"
  proof -
    have "(2::real) powi (- 1022) \<le> 2 powi 0"
      by (rule power_int_increasing) simp_all
    then show ?thesis by (simp add: DRAG_def)
  qed
  have "\<bar>fl DRAG - DRAG\<bar> \<le> \<bar>DRAG\<bar> / 2 ^ 53" by (rule fl_error [OF n])
  then have "\<bar>fl DRAG - 0.94\<bar> \<le> 0.94 / 2 ^ 53" by (simp add: DRAG_def)
  then have "\<bar>fl DRAG - 47 / 50\<bar> \<le> 1 / 1000" by simp
  then have "939 / 1000 \<le> fl DRAG" and "fl DRAG \<le> 941 / 1000" by linarith+
  then show "0 < fl DRAG" "fl DRAG \<le> 1" "1 / 18 < 1 - fl DRAG" "1 - fl DRAG < 1 / 16"
    by linarith+
qed

lemma drag64_multiple:
  assumes "binary64 v"
  obtains N :: int where "v = of_int N * ulp64 (v * fl DRAG)"
    and "fl (v * fl DRAG) = of_int (rne (of_int N * fl DRAG)) * ulp64 (v * fl DRAG)"
proof -
  have "\<bar>v * fl DRAG\<bar> = \<bar>v\<bar> * fl DRAG"
    using fl_DRAG_bounds(1) by (simp add: abs_mult)
  also have "\<dots> \<le> \<bar>v\<bar> * 1"
    using fl_DRAG_bounds(2) by (intro mult_left_mono) simp_all
  finally have "\<bar>v * fl DRAG\<bar> \<le> \<bar>v\<bar>" by simp
  from binary64_multiple [OF assms this] obtain N :: int
    where N: "v = of_int N * ulp64 (v * fl DRAG)" by blast
  from N fl_multiple [OF N] that show ?thesis by blast
qed

lemma drag64_stuck:
  assumes "binary64 v" and "\<bar>v\<bar> \<le> 8 * 2 powi (- 1074)"
  shows "fl (v * fl DRAG) = v"
proof -
  define t :: real where "t = 2 powi (- 1074)"
  have t: "0 < t" by (simp add: t_def)
  have "(8::real) * 2 powi (- 1074) < 2 powi (- 1022)" by simp
  with assms(2) have v: "\<bar>v\<bar> < 2 powi (- 1022)" by linarith
  have "\<bar>v * fl DRAG\<bar> = \<bar>v\<bar> * fl DRAG"
    using fl_DRAG_bounds(1) by (simp add: abs_mult)
  also have "\<dots> \<le> \<bar>v\<bar> * 1"
    using fl_DRAG_bounds(2) by (intro mult_left_mono) simp_all
  finally have "\<bar>v * fl DRAG\<bar> < 2 powi (- 1022)" using v by simp
  then have u: "ulp64 (v * fl DRAG) = t" unfolding t_def by (rule ulp64_subnormal)
  from drag64_multiple [OF assms(1)] obtain N :: int
    where N: "v = of_int N * ulp64 (v * fl DRAG)"
      and f: "fl (v * fl DRAG) = of_int (rne (of_int N * fl DRAG)) * ulp64 (v * fl DRAG)"
    by blast
  have "\<bar>real_of_int N\<bar> * t = \<bar>v\<bar>"
    using N t by (simp add: u abs_mult)
  also have "\<dots> \<le> 8 * t" using assms(2) by (simp add: t_def)
  finally have "\<bar>real_of_int N\<bar> \<le> 8" using t by simp
  then have "\<bar>N\<bar> \<le> 8" by linarith
  then have "rne (of_int N * fl DRAG) = N"
    by (intro rne_scaled_small fl_DRAG_bounds)
  with f N show ?thesis by simp
qed

lemma drag64_shrinks:
  assumes "binary64 v" and "8 * 2 powi (- 1074) < \<bar>v\<bar>"
  shows "\<bar>fl (v * fl DRAG)\<bar> < \<bar>v\<bar>"
proof -
  define t :: real where "t = 2 powi (- 1074)"
  define u where "u = ulp64 (v * fl DRAG)"
  have t: "0 < t" by (simp add: t_def)
  have u: "0 < u" unfolding u_def by (rule ulp64_pos)
  from drag64_multiple [OF assms(1)] obtain N :: int
    where N: "v = of_int N * u"
      and f: "fl (v * fl DRAG) = of_int (rne (of_int N * fl DRAG)) * u"
    unfolding u_def by blast
  have av: "\<bar>v\<bar> = \<bar>real_of_int N\<bar> * u"
    by (subst N) (use u in \<open>simp add: abs_mult\<close>)
  have "8 < \<bar>real_of_int N\<bar>"
  proof (cases "\<bar>v * fl DRAG\<bar> < 2 powi (- 1022)")
    case True
    then have "u = t" unfolding u_def t_def by (rule ulp64_subnormal)
    with assms(2) av have "8 * t < \<bar>real_of_int N\<bar> * t" by (simp add: t_def)
    with t show ?thesis by simp
  next
    case False
    then have "2 powi (- 1022) \<le> \<bar>v * fl DRAG\<bar>" by simp
    then have "u * 2 ^ 52 \<le> \<bar>v * fl DRAG\<bar>" unfolding u_def by (rule ulp64_normal_le)
    also have "\<bar>v * fl DRAG\<bar> = \<bar>v\<bar> * fl DRAG"
      using fl_DRAG_bounds(1) by (simp add: abs_mult)
    also have "\<dots> \<le> \<bar>v\<bar> * 1"
      using fl_DRAG_bounds(2) by (intro mult_left_mono) simp_all
    finally have "u * 2 ^ 52 \<le> \<bar>real_of_int N\<bar> * u" by (simp add: av)
    with u have "(2::real) ^ 52 \<le> \<bar>real_of_int N\<bar>" by simp
    moreover have "(8::real) < 2 ^ 52" by simp
    ultimately show ?thesis by linarith
  qed
  then have "9 \<le> \<bar>N\<bar>" by linarith
  then have "\<bar>rne (of_int N * fl DRAG)\<bar> < \<bar>N\<bar>"
    by (intro rne_scaled_large fl_DRAG_bounds)
  then have "\<bar>real_of_int (rne (of_int N * fl DRAG))\<bar> < \<bar>real_of_int N\<bar>" by linarith
  then have "\<bar>real_of_int (rne (of_int N * fl DRAG))\<bar> * u < \<bar>real_of_int N\<bar> * u"
    using u by simp
  then show ?thesis using u by (simp add: f av abs_mult)
qed

lemma fl_zero: "fl 0 = 0"
  by (simp add: fl_def rne_def)

lemma floor_log_le:
  assumes "0 < x" and "x < 2 powi (k + 1)"
  shows "\<lfloor>log 2 x\<rfloor> \<le> k"
proof -
  have "log 2 x < log 2 (2 powi (k + 1))"
    using assms by (simp add: log_less_cancel_iff)
  moreover have "log 2 (2 powi (k + 1)) = of_int (k + 1)"
    by (simp add: powr_real_of_int' [symmetric] del: powr_real_of_int')
  ultimately have "log 2 x < of_int (k + 1)" by simp
  then have "\<lfloor>log 2 x\<rfloor> < k + 1" by (simp only: floor_less_iff)
  then show ?thesis by simp
qed

lemma ulp64_normal:
  assumes "2 powi k \<le> \<bar>x\<bar>" and "\<bar>x\<bar> < 2 powi (k + 1)" and "- 1022 \<le> k"
  shows "ulp64 x = 2 powi (k - 52)"
proof -
  have "(2::real) powi (- 1022) \<le> 2 powi k"
    using assms(3) by (intro power_int_increasing) simp_all
  with assms(1) have n: "\<not> \<bar>x\<bar> < 2 powi (- 1022)" by linarith
  have "(0::real) < 2 powi k" by simp
  with assms(1) have x: "0 < \<bar>x\<bar>" by linarith
  have "\<lfloor>log 2 \<bar>x\<bar>\<rfloor> = k"
    using floor_log_ge [OF assms(1)] floor_log_le [OF x assms(2)] by linarith
  with n show ?thesis by (simp only: ulp64_def if_False)
qed

lemma length_v_mono:
  assumes "\<bar>a'\<bar> \<le> \<bar>a\<bar>" and "\<bar>b'\<bar> \<le> \<bar>b\<bar>" and "\<bar>c'\<bar> \<le> \<bar>c\<bar>"
  shows "length_v (Vector3 a' b' c') \<le> length_v (Vector3 a b c)"
proof -
  have "a' * a' \<le> a * a" "b' * b' \<le> b * b" "c' * c' \<le> c * c"
    using assms by (simp_all add: abs_le_square_iff power2_eq_square)
  then show ?thesis by (simp add: length_v_def lengthSq_def)
qed

lemma length_v_strict:
  assumes "\<bar>a'\<bar> \<le> \<bar>a\<bar>" and "\<bar>b'\<bar> \<le> \<bar>b\<bar>" and "\<bar>c'\<bar> \<le> \<bar>c\<bar>"
    and "\<bar>a'\<bar> < \<bar>a\<bar> \<or> \<bar>b'\<bar> < \<bar>b\<bar> \<or> \<bar>c'\<bar> < \<bar>c\<bar>"
  shows "length_v (Vector3 a' b' c') < length_v (Vector3 a b c)"
proof -
  have le: "a' * a' \<le> a * a" "b' * b' \<le> b * b" "c' * c' \<le> c * c"
    using assms(1-3) by (simp_all add: abs_le_square_iff power2_eq_square)
  have sq: "x' * x' < x * x" if "\<bar>x'\<bar> < \<bar>x\<bar>" for x x' :: real
  proof -
    have "\<bar>x'\<bar> * \<bar>x'\<bar> < \<bar>x\<bar> * \<bar>x\<bar>"
      using that by (intro mult_strict_mono') simp_all
    then show ?thesis by simp
  qed
  from assms(4) sq have "a' * a' < a * a \<or> b' * b' < b * b \<or> c' * c' < c * c" by blast
  with le have "a' * a' + b' * b' + c' * c' < a * a + b * b + c * c" by linarith
  then show ?thesis by (simp add: length_v_def lengthSq_def)
qed

lemma drag64_le:
  assumes "binary64 v"
  shows "\<bar>fl (v * fl DRAG)\<bar> \<le> \<bar>v\<bar>"
proof (cases "\<bar>v\<bar> \<le> 8 * 2 powi (- 1074)")
  case True
  then show ?thesis by (simp only: drag64_stuck [OF assms True])
next
  case False
  then have "8 * 2 powi (- 1074) < \<bar>v\<bar>" by simp
  from drag64_shrinks [OF assms this] show ?thesis by simp
qed

lemma physicsUpdate64_coast:
  assumes "throttle c = 0" and "yaw c = 0" and "pitch c = 0" and "roll c = 0"
    and "binary64_v (velocity s)" and "binary64_e (rotation s)"
  shows "velocity (physicsUpdate64 R c cfg s) = multiplyScalar64 (velocity s) (fl DRAG)"
    and "rotation (physicsUpdate64 R c cfg s) = rotation s"
  using assms
  by (simp_all add: physicsUpdate64_def Let_def multiplyScalar64_def add64_def fl_zero
        binary64_v_def binary64_e_def binary64_def)

lemma binary64_multipleI:
  assumes "x = of_int m * ulp64 x"
  shows "binary64 x"
proof -
  have "x / ulp64 x = of_int m"
    using ulp64_pos [of x] by (subst assms) simp
  then have "fl x = of_int m * ulp64 x" by (simp add: fl_def rne_of_int)
  with assms show ?thesis by (simp add: binary64_def)
qed

lemma binary64_zero: "binary64 0"
  by (simp add: binary64_def fl_zero)

lemma binary64_one: "binary64 1"
proof -
  have "ulp64 1 = 2 powi (0 - 52)" by (rule ulp64_normal) simp_all
  then have "(1::real) = of_int (2 ^ 52) * ulp64 1" by simp
  then show ?thesis by (rule binary64_multipleI)
qed

lemma binary64_PI: "binary64 (884279719003555 / 2 ^ 48)"
proof -
  have "ulp64 (884279719003555 / 2 ^ 48) = 2 powi (1 - 52)" by (rule ulp64_normal) simp_all
  then have "(884279719003555 / 2 ^ 48 :: real)
               = of_int (884279719003555 * 8) * ulp64 (884279719003555 / 2 ^ 48)" by simp
  then show ?thesis by (rule binary64_multipleI)
qed

lemma binary64_stuck: "binary64 (8 * 2 powi (- 1074))"
proof -
  have "ulp64 (8 * 2 powi (- 1074)) = 2 powi (- 1074)" by (rule ulp64_subnormal) simp
  then have "(8 * 2 powi (- 1074) :: real) = of_int 8 * ulp64 (8 * 2 powi (- 1074))"
    by (simp only: of_int_numeral)
  then show ?thesis by (rule binary64_multipleI)
qed

lemma binary64_DRAG: "binary64 (2116691824864133 / 2 ^ 51)"
proof -
  have "ulp64 (2116691824864133 / 2 ^ 51) = 2 powi (- 1 - 52)" by (rule ulp64_normal) simp_all
  then have "(2116691824864133 / 2 ^ 51 :: real)
               = of_int (2116691824864133 * 4) * ulp64 (2116691824864133 / 2 ^ 51)" by simp
  then show ?thesis by (rule binary64_multipleI)
qed

lemma fl_DRAG: "fl DRAG = 2116691824864133 / 2 ^ 51"
proof -
  have u: "ulp64 DRAG = 2 powi (- 1 - 52)"
    by (rule ulp64_normal) (simp_all add: DRAG_def)
  have d: "DRAG / 2 powi (- 1 - 52) = 8466767299456532 + 12 / 25"
    by (simp add: DRAG_def)
  have r: "rne (8466767299456532 + 12 / 25) = 8466767299456532"
    by (rule rne_near) simp
  show ?thesis unfolding fl_def u d r by simp
qed

text \<open>Every rounded result is a double.\<close>

lemma rne_mono_int:
  assumes "of_int m \<le> y"
  shows "m \<le> rne y"
proof -
  have "real_of_int m - 1 / 2 \<le> of_int (rne y)"
    using rne_lower [of y] assms by linarith
  then have "real_of_int m - 1 < of_int (rne y)" by linarith
  then have "m - 1 < rne y" by linarith
  then show ?thesis by simp
qed

lemma rne_mono_int':
  assumes "y \<le> of_int m"
  shows "rne y \<le> m"
proof -
  have "of_int (rne y) \<le> real_of_int m + 1 / 2"
    using rne_upper [of y] assms by linarith
  then have "of_int (rne y) < real_of_int m + 1" by linarith
  then have "rne y < m + 1" by linarith
  then show ?thesis by simp
qed

lemma ulp64_ge: "2 powi (- 1074) \<le> ulp64 x"
proof (cases "\<bar>x\<bar> < 2 powi (- 1022)")
  case True
  then show ?thesis by (simp only: ulp64_subnormal order_refl)
next
  case False
  then have x: "2 powi (- 1022) \<le> \<bar>x\<bar>" by simp
  have "- 1022 \<le> \<lfloor>log 2 \<bar>x\<bar>\<rfloor>" by (rule floor_log_ge [OF x])
  then have "- 1074 \<le> \<lfloor>log 2 \<bar>x\<bar>\<rfloor> - 52" by linarith
  then have "(2::real) powi (- 1074) \<le> 2 powi (\<lfloor>log 2 \<bar>x\<bar>\<rfloor> - 52)"
    by (rule power_int_increasing) simp
  with False show ?thesis by (simp only: ulp64_def if_False)
qed

lemma powi_floor_log_gt:
  assumes "0 < x"
  shows "x < 2 powi (\<lfloor>log 2 x\<rfloor> + 1)"
proof -
  have e: "(2::real) powr real_of_int (\<lfloor>log 2 x\<rfloor> + 1) = 2 powi (\<lfloor>log 2 x\<rfloor> + 1)"
    by (rule powr_real_of_int') simp_all
  have "log 2 x < of_int (\<lfloor>log 2 x\<rfloor> + 1)" by linarith
  then have "2 powr (log 2 x) < 2 powr (of_int (\<lfloor>log 2 x\<rfloor> + 1))"
    by (intro powr_less_mono) simp_all
  moreover have "2 powr (log 2 x) = x" using assms by simp
  ultimately show ?thesis unfolding e by simp
qed

lemma powi_units:
  "(2::real) powi k = 2 ^ 52 * 2 powi (k - 52)"
  "(2::real) powi (k + 1) = 2 ^ 53 * 2 powi (k - 52)"
  "(2::real) powi (k + 1 - 52) = 2 * 2 powi (k - 52)"
proof -
  have "(2::real) powi (52 + (k - 52)) = 2 powi 52 * 2 powi (k - 52)"
    by (rule power_int_add) simp
  then show "(2::real) powi k = 2 ^ 52 * 2 powi (k - 52)" by simp
  have "(2::real) powi (53 + (k - 52)) = 2 powi 53 * 2 powi (k - 52)"
    by (rule power_int_add) simp
  then show "(2::real) powi (k + 1) = 2 ^ 53 * 2 powi (k - 52)" by (simp add: add.commute)
  have "(2::real) powi (1 + (k - 52)) = 2 powi 1 * 2 powi (k - 52)"
    by (rule power_int_add) simp
  then show "(2::real) powi (k + 1 - 52) = 2 * 2 powi (k - 52)"
    by (simp add: algebra_simps)
qed

lemma binary64_fl: "binary64 (fl x)"
proof (cases "\<bar>x\<bar> < 2 powi (- 1022)")
  case True
  define t :: real where "t = 2 powi (- 1074)"
  define M where "M = rne (x / t)"
  have t: "0 < t" by (simp add: t_def)
  have u: "ulp64 x = t" unfolding t_def by (rule ulp64_subnormal [OF True])
  have y: "fl x = of_int M * t" by (simp add: fl_def u M_def)
  have tt: "t * 2 ^ 52 = 2 powi (- 1022)"
  proof -
    have "(2::real) powi (- 1074 + 52) = 2 powi (- 1074) * 2 powi 52"
      by (rule power_int_add) simp
    then show ?thesis by (simp add: t_def)
  qed
  have "\<bar>x\<bar> < t * 2 ^ 52" using True by (simp only: tt)
  then have "- (t * 4503599627370496) \<le> x" "x \<le> t * 4503599627370496"
    by simp_all
  then have a: "of_int (- 4503599627370496) \<le> x / t"
    and b: "x / t \<le> of_int 4503599627370496"
    using t by (simp_all add: field_simps)
  have "- 4503599627370496 \<le> M" "M \<le> 4503599627370496"
    unfolding M_def by (rule rne_mono_int [OF a], rule rne_mono_int' [OF b])
  then have "\<bar>real_of_int M\<bar> \<le> 2 ^ 52" by simp
  then have m: "\<bar>real_of_int M\<bar> * t \<le> 2 ^ 52 * t" using t by simp
  have "\<bar>fl x\<bar> = \<bar>real_of_int M\<bar> * t"
    using t by (simp add: y abs_mult)
  also note m
  also have "2 ^ 52 * t = 2 powi (- 1022)"
    by (simp only: tt [symmetric] mult.commute)
  finally have le: "\<bar>fl x\<bar> \<le> 2 powi (- 1022)" .
  have "ulp64 (fl x) = t"
  proof (cases "\<bar>fl x\<bar> < 2 powi (- 1022)")
    case True
    then show ?thesis unfolding t_def by (rule ulp64_subnormal)
  next
    case False
    with le have e: "\<bar>fl x\<bar> = 2 powi (- 1022)" by linarith
    have "ulp64 (fl x) = 2 powi (- 1022 - 52)"
    proof (rule ulp64_normal)
      show "2 powi (- 1022) \<le> \<bar>fl x\<bar>" using e by simp
      have "(2::real) powi (- 1022) < 2 powi (- 1022 + 1)"
        by (intro power_int_strict_increasing) simp_all
      then show "\<bar>fl x\<bar> < 2 powi (- 1022 + 1)" using e by simp
    qed simp
    then show ?thesis by (simp add: t_def)
  qed
  with y have "fl x = of_int M * ulp64 (fl x)" by simp
  then show ?thesis by (rule binary64_multipleI)
next
  case False
  then have x: "2 powi (- 1022) \<le> \<bar>x\<bar>" by simp
  have "(0::real) < 2 powi (- 1022)" by simp
  with x have x0: "0 < \<bar>x\<bar>" by linarith
  define k where "k = \<lfloor>log 2 \<bar>x\<bar>\<rfloor>"
  define u :: real where "u = 2 powi (k - 52)"
  define M where "M = rne (x / u)"
  have u: "0 < u" by (simp add: u_def)
  have k: "- 1022 \<le> k" unfolding k_def by (rule floor_log_ge [OF x])
  have ux: "ulp64 x = u" using False by (simp add: ulp64_def u_def k_def)
  have y: "fl x = of_int M * u" by (simp add: fl_def ux M_def)
  have lo: "2 ^ 52 * u \<le> \<bar>x\<bar>"
    using powi_floor_log_le [OF x0] unfolding k_def [symmetric] powi_units(1) [of k] u_def .
  have hi: "\<bar>x\<bar> < 2 ^ 53 * u"
    using powi_floor_log_gt [OF x0] unfolding k_def [symmetric] powi_units(2) [of k] u_def .
  have M: "4503599627370496 \<le> \<bar>M\<bar> \<and> \<bar>M\<bar> \<le> 9007199254740992"
  proof (cases "0 \<le> x")
    case True
    with lo hi u have a: "of_int 4503599627370496 \<le> x / u"
      and b: "x / u \<le> of_int 9007199254740992"
      by (simp_all add: field_simps)
    have "4503599627370496 \<le> M" "M \<le> 9007199254740992"
      unfolding M_def by (rule rne_mono_int [OF a], rule rne_mono_int' [OF b])
    then show ?thesis by simp
  next
    case False
    with lo hi u have a: "x / u \<le> of_int (- 4503599627370496)"
      and b: "of_int (- 9007199254740992) \<le> x / u"
      by (simp_all add: field_simps)
    have "M \<le> - 4503599627370496" "- 9007199254740992 \<le> M"
      unfolding M_def by (rule rne_mono_int' [OF a], rule rne_mono_int [OF b])
    then show ?thesis by simp
  qed
  have ay: "\<bar>fl x\<bar> = \<bar>real_of_int M\<bar> * u"
    using u by (simp add: y abs_mult)
  have "real_of_int 4503599627370496 \<le> real_of_int \<bar>M\<bar>"
    using M by (simp only: of_int_le_iff)
  then have rM: "2 ^ 52 \<le> \<bar>real_of_int M\<bar>" by simp
  show ?thesis
  proof (cases "\<bar>M\<bar> < 9007199254740992")
    case True
    have "ulp64 (fl x) = 2 powi (k - 52)"
    proof (rule ulp64_normal [OF _ _ k])
      have "2 ^ 52 * u \<le> \<bar>real_of_int M\<bar> * u" using rM u by simp
      then show "2 powi k \<le> \<bar>fl x\<bar>"
        unfolding ay powi_units(1) [of k] u_def .
      have "real_of_int \<bar>M\<bar> < real_of_int 9007199254740992"
        using True by (simp only: of_int_less_iff)
      then have "\<bar>real_of_int M\<bar> < 2 ^ 53" by simp
      then have "\<bar>real_of_int M\<bar> * u < 2 ^ 53 * u" using u by simp
      then show "\<bar>fl x\<bar> < 2 powi (k + 1)"
        unfolding ay powi_units(2) [of k] u_def .
    qed
    with y have "fl x = of_int M * ulp64 (fl x)" by (simp add: u_def)
    then show ?thesis by (rule binary64_multipleI)
  next
    case False
    with M have e: "\<bar>M\<bar> = 9007199254740992" by linarith
    have k1: "- 1022 \<le> k + 1" using k by simp
    have "ulp64 (fl x) = 2 powi (k + 1 - 52)"
    proof (rule ulp64_normal [OF _ _ k1])
      have "real_of_int \<bar>M\<bar> = real_of_int 9007199254740992"
        using e by (simp only:)
      then have "\<bar>real_of_int M\<bar> = 2 ^ 53" by simp
      then have eq: "\<bar>fl x\<bar> = 2 powi (k + 1)"
        unfolding ay powi_units(2) [of k] u_def by simp
      then show "2 powi (k + 1) \<le> \<bar>fl x\<bar>" by simp
      have "(2::real) powi (k + 1) < 2 powi (k + 1 + 1)"
        by (rule power_int_strict_increasing) simp_all
      then show "\<bar>fl x\<bar> < 2 powi (k + 1 + 1)" using eq by simp
    qed
    then have uy: "ulp64 (fl x) = 2 * u" unfolding powi_units(3) [of k] u_def .
    have "even M" using e by presburger
    then obtain h where h: "M = 2 * h" by (elim evenE)
    have "fl x = of_int h * ulp64 (fl x)" unfolding uy by (simp add: y h)
    then show ?thesis by (rule binary64_multipleI)
  qed
qed

lemma binary64_grid:
  assumes "binary64 v"
  obtains N :: int where "v = of_int N * 2 powi (- 1074)"
proof -
  have "ulp64 0 = 2 powi (- 1074)" by (rule ulp64_subnormal) simp
  with binary64_multiple [OF assms, of 0] that show ?thesis by auto
qed

lemma drag64_floor:
  assumes "binary64 v" and "8 * 2 powi (- 1074) < \<bar>v\<bar>"
  shows "8 * 2 powi (- 1074) \<le> \<bar>fl (v * fl DRAG)\<bar>"
proof -
  define t :: real where "t = 2 powi (- 1074)"
  define u where "u = ulp64 (v * fl DRAG)"
  have t: "0 < t" by (simp add: t_def)
  have u: "0 < u" unfolding u_def by (rule ulp64_pos)
  have tu: "t \<le> u" unfolding t_def u_def by (rule ulp64_ge)
  from drag64_multiple [OF assms(1)] obtain N :: int
    where N: "v = of_int N * u"
      and f: "fl (v * fl DRAG) = of_int (rne (of_int N * fl DRAG)) * u"
    unfolding u_def by blast
  have av: "\<bar>v\<bar> = \<bar>real_of_int N\<bar> * u"
    by (subst N) (use u in \<open>simp add: abs_mult\<close>)
  have "8 < \<bar>real_of_int N\<bar>"
  proof (cases "\<bar>v * fl DRAG\<bar> < 2 powi (- 1022)")
    case True
    then have "u = t" unfolding u_def t_def by (rule ulp64_subnormal)
    with assms(2) av have "8 * t < \<bar>real_of_int N\<bar> * t" by (simp add: t_def)
    with t show ?thesis by simp
  next
    case False
    then have "2 powi (- 1022) \<le> \<bar>v * fl DRAG\<bar>" by simp
    then have "u * 2 ^ 52 \<le> \<bar>v * fl DRAG\<bar>" unfolding u_def by (rule ulp64_normal_le)
    also have "\<bar>v * fl DRAG\<bar> = \<bar>v\<bar> * fl DRAG"
      using fl_DRAG_bounds(1) by (simp add: abs_mult)
    also have "\<dots> \<le> \<bar>v\<bar> * 1"
      using fl_DRAG_bounds(2) by (intro mult_left_mono) simp_all
    finally have "u * 2 ^ 52 \<le> \<bar>real_of_int N\<bar> * u" by (simp add: av)
    with u have "(2::real) ^ 52 \<le> \<bar>real_of_int N\<bar>" by simp
    moreover have "(8::real) < 2 ^ 52" by simp
    ultimately show ?thesis by linarith
  qed
  then have N9: "9 \<le> \<bar>N\<bar>" by linarith
  have c: "8 / 9 \<le> fl DRAG" using fl_DRAG_bounds(4) by simp
  have "8 \<le> \<bar>rne (of_int N * fl DRAG)\<bar>"
  proof (cases "0 \<le> N")
    case True
    with N9 have "9 \<le> real_of_int N" by simp
    then have "9 * (8 / 9) \<le> real_of_int N * fl DRAG"
      using c by (intro mult_mono) simp_all
    then have "of_int 8 \<le> real_of_int N * fl DRAG" by simp
    then have "8 \<le> rne (of_int N * fl DRAG)" by (rule rne_mono_int)
    then show ?thesis by simp
  next
    case False
    with N9 have "9 \<le> - real_of_int N" by simp
    then have "9 * (8 / 9) \<le> - real_of_int N * fl DRAG"
      using c by (intro mult_mono) simp_all
    then have "real_of_int N * fl DRAG \<le> of_int (- 8)" by simp
    then have "rne (of_int N * fl DRAG) \<le> - 8" by (rule rne_mono_int')
    then show ?thesis by simp
  qed
  then have "8 \<le> \<bar>real_of_int (rne (of_int N * fl DRAG))\<bar>" by linarith
  then have "8 * t \<le> \<bar>real_of_int (rne (of_int N * fl DRAG))\<bar> * u"
    using tu t by (intro mult_mono) simp_all
  then show ?thesis using u by (simp add: f abs_mult t_def)
qed

lemma coast_settles:
  assumes "binary64 v" and "8 * 2 powi (- 1074) \<le> \<bar>v\<bar>"
  shows "\<exists>n. \<bar>coast n v\<bar> = 8 * 2 powi (- 1074)"
  using assms
proof (induction "nat \<lfloor>\<bar>v\<bar> / 2 powi (- 1074)\<rfloor>" arbitrary: v rule: less_induct)
  case less
  define t :: real where "t = 2 powi (- 1074)"
  have t: "0 < t" by (simp add: t_def)
  show ?case
  proof (cases "\<bar>v\<bar> = 8 * 2 powi (- 1074)")
    case True
    then have "\<bar>coast 0 v\<bar> = 8 * 2 powi (- 1074)" by simp
    then show ?thesis by blast
  next
    case False
    with less.prems(2) have big: "8 * 2 powi (- 1074) < \<bar>v\<bar>" by simp
    define v' where "v' = fl (v * fl DRAG)"
    have b': "binary64 v'" unfolding v'_def by (rule binary64_fl)
    have lt: "\<bar>v'\<bar> < \<bar>v\<bar>" unfolding v'_def by (rule drag64_shrinks [OF less.prems(1) big])
    have ge: "8 * 2 powi (- 1074) \<le> \<bar>v'\<bar>"
      unfolding v'_def by (rule drag64_floor [OF less.prems(1) big])
    from binary64_grid [OF less.prems(1)] obtain N :: int where N: "v = of_int N * t"
      unfolding t_def by blast
    from binary64_grid [OF b'] obtain N' :: int where N': "v' = of_int N' * t"
      unfolding t_def by blast
    have "\<bar>v\<bar> / t = real_of_int \<bar>N\<bar>" "\<bar>v'\<bar> / t = real_of_int \<bar>N'\<bar>"
      using t by (simp_all add: N N' abs_mult)
    then have q: "\<lfloor>\<bar>v\<bar> / t\<rfloor> = \<bar>N\<bar>" "\<lfloor>\<bar>v'\<bar> / t\<rfloor> = \<bar>N'\<bar>"
      by (simp_all only: floor_of_int)
    have "\<bar>real_of_int N'\<bar> * t < \<bar>real_of_int N\<bar> * t"
      using lt t by (simp add: N N' abs_mult)
    then have "\<bar>N'\<bar> < \<bar>N\<bar>" using t by simp
    then have "nat \<lfloor>\<bar>v'\<bar> / t\<rfloor> < nat \<lfloor>\<bar>v\<bar> / t\<rfloor>"
      unfolding q by simp
    from less.hyps [OF this [unfolded t_def] b' ge] obtain n
      where "\<bar>coast n v'\<bar> = 8 * 2 powi (- 1074)" by blast
    then have "\<bar>coast (Suc n) v\<bar> = 8 * 2 powi (- 1074)" by (simp add: v'_def)
    then show ?thesis by blast
  qed
qed


lemma fl_nonneg:
  assumes "0 \<le> x"
  shows "0 \<le> fl x"
proof -
  have "of_int 0 \<le> x / ulp64 x" using assms ulp64_pos [of x] by simp
  then have "0 \<le> rne (x / ulp64 x)" by (rule rne_mono_int)
  then show ?thesis using ulp64_pos [of x] by (simp add: fl_def)
qed

lemma coast_nonneg: "0 \<le> v \<Longrightarrow> 0 \<le> coast n v"
proof (induction n arbitrary: v)
  case 0
  then show ?case by simp
next
  case (Suc n)
  have "0 \<le> v * fl DRAG" using Suc.prems fl_DRAG_bounds(1) by simp
  then have "0 \<le> fl (v * fl DRAG)" by (rule fl_nonneg)
  then show ?case by (simp add: Suc.IH)
qed

lemma coast_zero: "coast n 0 = 0"
  by (induction n) (simp_all add: fl_zero)

lemma coasting_state:
  assumes "binary64_v (velocity s)" and "binary64_e (rotation s)"
  shows "velocity (coasting R cfg n s)
           = Vector3 (coast n (vx (velocity s))) (coast n (vy (velocity s)))
                     (coast n (vz (velocity s)))
         \<and> rotation (coasting R cfg n s) = rotation s"
  using assms
proof (induction n arbitrary: s)
  case 0
  then show ?case by simp
next
  case (Suc n)
  let ?s' = "physicsUpdate64 R initialControls cfg s"
  have c: "throttle initialControls = 0" "yaw initialControls = 0"
    "pitch initialControls = 0" "roll initialControls = 0"
    by (simp_all add: initialControls_def)
  have v: "velocity ?s' = multiplyScalar64 (velocity s) (fl DRAG)"
    and r: "rotation ?s' = rotation s"
    by (rule physicsUpdate64_coast [OF c Suc.prems])+
  have bv: "binary64_v (velocity ?s')"
    unfolding v by (simp add: binary64_v_def multiplyScalar64_def binary64_fl)
  have br: "binary64_e (rotation ?s')"
    unfolding r by (rule Suc.prems(2))
  from Suc.IH [OF bv br] show ?case
    by (simp add: v r multiplyScalar64_def)
qed


text \<open>With the sticks at 0 the drag step reproduces the velocity \<open>(8 * 2 powi (- 1074), 0, 0)\<close>,
  about \<open>4e-323\<close>.\<close>

lemma stuck_state:
  "velocity (physicsUpdate64 applyEuler initialControls initialShipConfig
      (spawn64\<lparr>velocity := Vector3 (8 * 2 powi (- 1074)) 0 0\<rparr>))
     = Vector3 (8 * 2 powi (- 1074)) 0 0"
proof -
  let ?s = "spawn64\<lparr>velocity := Vector3 (8 * 2 powi (- 1074)) 0 0\<rparr>"
  have c: "throttle initialControls = 0" "yaw initialControls = 0"
    "pitch initialControls = 0" "roll initialControls = 0"
    by (simp_all add: initialControls_def)
  have v: "binary64_v (velocity ?s)"
    unfolding binary64_v_def using binary64_stuck binary64_zero by simp
  have r: "binary64_e (rotation ?s)"
    unfolding binary64_e_def spawn64_def using binary64_PI binary64_zero by simp
  have "fl (8 * 2 powi (- 1074) * fl DRAG) = 8 * 2 powi (- 1074)"
    by (rule drag64_stuck [OF binary64_stuck]) simp
  then have "multiplyScalar64 (Vector3 (8 * 2 powi (- 1074)) 0 0) (fl DRAG)
               = Vector3 (8 * 2 powi (- 1074)) 0 0"
    unfolding multiplyScalar64_def Vector3.sel by (simp only: mult_zero_left fl_zero)
  then show ?thesis
    unfolding physicsUpdate64_coast(1) [OF c v r] by simp
qed

text \<open>
  Claim C5 as stated fails: at that velocity, which is not zero, the magnitude after the
  step is not smaller than before.
\<close>

theorem drag_rounding_counterexample:
  "throttle initialControls = 0 \<and> yaw initialControls = 0
   \<and> pitch initialControls = 0 \<and> roll initialControls = 0
   \<and> 0 < length_v (velocity (spawn64\<lparr>velocity := Vector3 (8 * 2 powi (- 1074)) 0 0\<rparr>))
   \<and> \<not> length_v (velocity (physicsUpdate64 applyEuler initialControls initialShipConfig
          (spawn64\<lparr>velocity := Vector3 (8 * 2 powi (- 1074)) 0 0\<rparr>)))
        < length_v (velocity (spawn64\<lparr>velocity := Vector3 (8 * 2 powi (- 1074)) 0 0\<rparr>))"
proof -
  have "(0::real) < 8 * 2 powi (- 1074) * (8 * 2 powi (- 1074))" by simp
  then have "0 < length_v (Vector3 (8 * 2 powi (- 1074)) 0 0)"
    unfolding length_v_def lengthSq_def Vector3.sel by simp
  then show ?thesis
    unfolding stuck_state by (simp add: initialControls_def)
qed

text \<open>That velocity is where a craft moving with velocity \<open>(1, 0, 0)\<close> arrives, some
  number of frames after the sticks are released.\<close>

lemma released_sticks_reach_stuck_state:
  "\<exists>n. velocity (coasting applyEuler initialShipConfig n (spawn64\<lparr>velocity := Vector3 1 0 0\<rparr>))
         = Vector3 (8 * 2 powi (- 1074)) 0 0"
proof -
  let ?s = "spawn64\<lparr>velocity := Vector3 1 0 0\<rparr>"
  have bv: "binary64_v (velocity ?s)"
    unfolding binary64_v_def using binary64_one binary64_zero by simp
  have br: "binary64_e (rotation ?s)"
    unfolding binary64_e_def spawn64_def using binary64_PI binary64_zero by simp
  have "(8::real) * 2 powi (- 1074) \<le> \<bar>1\<bar>" by simp
  from coast_settles [OF binary64_one this] obtain n
    where n: "\<bar>coast n 1\<bar> = 8 * 2 powi (- 1074)" by blast
  have "0 \<le> coast n 1" by (rule coast_nonneg) simp
  with n have "coast n 1 = 8 * 2 powi (- 1074)" by simp
  with coasting_state [OF bv br, of applyEuler initialShipConfig n]
  have "velocity (coasting applyEuler initialShipConfig n ?s) = Vector3 (8 * 2 powi (- 1074)) 0 0"
    by (simp add: coast_zero)
  then show ?thesis by blast
qed

text \<open>
  Claim C5, as amended. In a frame in which the integrator runs with throttle, yaw, pitch
  and roll all 0, the rotation is unchanged and every velocity component becomes the
  double nearest to 0.94 times itself, 0.94 being the double of that literal. The magnitude of the velocity never grows; it is
  strictly smaller than before when some component exceeds \<open>8 * 2 powi (- 1074)\<close> in absolute
  value, and the velocity is exactly the one before, zero or not, when no component
  does. The boundary enforcement that follows keeps the rotation and keeps or zeroes the
  velocity.
\<close>

theorem coasting_frame_decays:
  assumes "throttle c = 0" and "yaw c = 0" and "pitch c = 0" and "roll c = 0"
    and "binary64_v (velocity s)" and "binary64_e (rotation s)"
  shows "rotation (physicsUpdate64 R c cfg s) = rotation s
         \<and> velocity (physicsUpdate64 R c cfg s)
             = Vector3 (fl (vx (velocity s) * fl DRAG)) (fl (vy (velocity s) * fl DRAG))
                       (fl (vz (velocity s) * fl DRAG))
         \<and> binary64_v (velocity (physicsUpdate64 R c cfg s))
         \<and> length_v (velocity (physicsUpdate64 R c cfg s)) \<le> length_v (velocity s)
         \<and> (8 * 2 powi (- 1074) < \<bar>vx (velocity s)\<bar> \<or> 8 * 2 powi (- 1074) < \<bar>vy (velocity s)\<bar>
              \<or> 8 * 2 powi (- 1074) < \<bar>vz (velocity s)\<bar> \<longrightarrow>
            length_v (velocity (physicsUpdate64 R c cfg s)) < length_v (velocity s))
         \<and> (\<bar>vx (velocity s)\<bar> \<le> 8 * 2 powi (- 1074) \<and> \<bar>vy (velocity s)\<bar> \<le> 8 * 2 powi (- 1074)
              \<and> \<bar>vz (velocity s)\<bar> \<le> 8 * 2 powi (- 1074) \<longrightarrow>
            velocity (physicsUpdate64 R c cfg s) = velocity s)
         \<and> length_v (velocity (boundaryEnforcement ar (physicsUpdate64 R c cfg s)))
             \<le> length_v (velocity s)
         \<and> rotation (boundaryEnforcement ar (physicsUpdate64 R c cfg s)) = rotation s"
proof -
  obtain a b d where v: "velocity s = Vector3 a b d" by (cases "velocity s")
  let ?s' = "physicsUpdate64 R c cfg s"
  have bin: "binary64 a" "binary64 b" "binary64 d"
    using assms(5) by (simp_all add: binary64_v_def v)
  have rot: "rotation ?s' = rotation s"
    by (rule physicsUpdate64_coast(2) [OF assms])
  have vel: "velocity ?s' = Vector3 (fl (a * fl DRAG)) (fl (b * fl DRAG)) (fl (d * fl DRAG))"
    by (simp add: physicsUpdate64_coast(1) [OF assms] multiplyScalar64_def v)
  have le: "\<bar>fl (a * fl DRAG)\<bar> \<le> \<bar>a\<bar>" "\<bar>fl (b * fl DRAG)\<bar> \<le> \<bar>b\<bar>" "\<bar>fl (d * fl DRAG)\<bar> \<le> \<bar>d\<bar>"
    using bin by (simp_all add: drag64_le)
  have clo: "binary64_v (velocity ?s')"
    unfolding vel by (simp add: binary64_v_def binary64_fl)
  have mono: "length_v (velocity ?s') \<le> length_v (velocity s)"
    unfolding vel v by (rule length_v_mono [OF le])
  have strict: "length_v (velocity ?s') < length_v (velocity s)"
    if "8 * 2 powi (- 1074) < \<bar>a\<bar> \<or> 8 * 2 powi (- 1074) < \<bar>b\<bar> \<or> 8 * 2 powi (- 1074) < \<bar>d\<bar>"
  proof -
    from that bin
    have "\<bar>fl (a * fl DRAG)\<bar> < \<bar>a\<bar> \<or> \<bar>fl (b * fl DRAG)\<bar> < \<bar>b\<bar> \<or> \<bar>fl (d * fl DRAG)\<bar> < \<bar>d\<bar>"
      using drag64_shrinks by blast
    then show ?thesis unfolding vel v by (rule length_v_strict [OF le])
  qed
  have stuck: "velocity ?s' = velocity s"
    if "\<bar>a\<bar> \<le> 8 * 2 powi (- 1074) \<and> \<bar>b\<bar> \<le> 8 * 2 powi (- 1074) \<and> \<bar>d\<bar> \<le> 8 * 2 powi (- 1074)"
    using that bin unfolding vel v by (simp only: drag64_stuck)
  have "velocity (boundaryEnforcement ar ?s') = velocity ?s'
        \<or> velocity (boundaryEnforcement ar ?s') = Vector3 0 0 0"
    by (rule boundaryEnforcement_velocity)
  then have enf: "length_v (velocity (boundaryEnforcement ar ?s')) \<le> length_v (velocity s)"
    using mono length_v_nonneg [of "velocity s"] by (auto simp add: length_v_zero)
  have rot': "rotation (boundaryEnforcement ar ?s') = rotation s"
    by (simp add: boundaryEnforcement_rotation rot)
  from rot vel clo mono strict stuck enf rot' show ?thesis
    unfolding v Vector3.sel by blast
qed

text \<open>A craft moving with velocity \<open>(1, 0, 0)\<close>, and one at the velocity of the
  counterexample.\<close>

theorem coasting_frame_decays_witness:
  "throttle initialControls = 0 \<and> yaw initialControls = 0
   \<and> pitch initialControls = 0 \<and> roll initialControls = 0
   \<and> binary64_v (Vector3 1 0 0) \<and> binary64_e (rotation spawn64)
   \<and> velocity (physicsUpdate64 applyEuler initialControls initialShipConfig
        (spawn64\<lparr>velocity := Vector3 1 0 0\<rparr>)) = Vector3 (2116691824864133 / 2 ^ 51) 0 0
   \<and> length_v (velocity (physicsUpdate64 applyEuler initialControls initialShipConfig
        (spawn64\<lparr>velocity := Vector3 1 0 0\<rparr>))) < length_v (Vector3 1 0 0)
   \<and> rotation (physicsUpdate64 applyEuler initialControls initialShipConfig
        (spawn64\<lparr>velocity := Vector3 1 0 0\<rparr>)) = rotation spawn64
   \<and> binary64_v (Vector3 (8 * 2 powi (- 1074)) 0 0)
   \<and> velocity (physicsUpdate64 applyEuler initialControls initialShipConfig
        (spawn64\<lparr>velocity := Vector3 (8 * 2 powi (- 1074)) 0 0\<rparr>))
       = Vector3 (8 * 2 powi (- 1074)) 0 0"
proof -
  let ?s1 = "spawn64\<lparr>velocity := Vector3 1 0 0\<rparr>"
  let ?s2 = "spawn64\<lparr>velocity := Vector3 (8 * 2 powi (- 1074)) 0 0\<rparr>"
  have c: "throttle initialControls = 0" "yaw initialControls = 0"
    "pitch initialControls = 0" "roll initialControls = 0"
    by (simp_all add: initialControls_def)
  have v1: "binary64_v (Vector3 1 0 0)"
    unfolding binary64_v_def using binary64_one binary64_zero by simp
  have v2: "binary64_v (Vector3 (8 * 2 powi (- 1074)) 0 0)"
    unfolding binary64_v_def using binary64_stuck binary64_zero by simp
  have r: "binary64_e (rotation spawn64)"
    unfolding binary64_e_def spawn64_def using binary64_PI binary64_zero by simp
  have s1: "velocity ?s1 = Vector3 1 0 0" "rotation ?s1 = rotation spawn64"
    and s2: "velocity ?s2 = Vector3 (8 * 2 powi (- 1074)) 0 0" "rotation ?s2 = rotation spawn64"
    by simp_all
  have b1: "binary64_v (velocity ?s1)" "binary64_e (rotation ?s1)"
    unfolding s1 by (rule v1, rule r)
  have b2: "binary64_v (velocity ?s2)" "binary64_e (rotation ?s2)"
    unfolding s2 by (rule v2, rule r)
  note t1 = coasting_frame_decays [OF c b1, of applyEuler initialShipConfig False, unfolded s1 Vector3.sel]
  note t2 = coasting_frame_decays [OF c b2, of applyEuler initialShipConfig False, unfolded s2 Vector3.sel]
  have big: "(8::real) * 2 powi (- 1074) < \<bar>1\<bar>" by simp
  have small: "\<bar>8 * 2 powi (- 1074) :: real\<bar> \<le> 8 * 2 powi (- 1074)" "\<bar>0::real\<bar> \<le> 8 * 2 powi (- 1074)"
    by simp_all
  from t1 have "velocity (physicsUpdate64 applyEuler initialControls initialShipConfig ?s1)
                  = Vector3 (fl (1 * fl DRAG)) (fl (0 * fl DRAG)) (fl (0 * fl DRAG))"
    by blast
  moreover have "fl (1 * fl DRAG) = 2116691824864133 / 2 ^ 51"
    using binary64_DRAG by (simp only: mult_1 fl_DRAG binary64_def)
  ultimately
  have e1: "velocity (physicsUpdate64 applyEuler initialControls initialShipConfig ?s1)
              = Vector3 (2116691824864133 / 2 ^ 51) 0 0"
    by (simp only: mult_zero_left fl_zero)
  from t1 big
  have e2: "length_v (velocity (physicsUpdate64 applyEuler initialControls initialShipConfig ?s1))
              < length_v (Vector3 1 0 0)"
    by blast
  from t1
  have e3: "rotation (physicsUpdate64 applyEuler initialControls initialShipConfig ?s1)
              = rotation spawn64"
    by blast
  from t2 small
  have e4: "velocity (physicsUpdate64 applyEuler initialControls initialShipConfig ?s2)
              = Vector3 (8 * 2 powi (- 1074)) 0 0"
    by blast
  from c v1 r e1 e2 e3 v2 e4 show ?thesis by blast
qed

subsection \<open>Starting a race\<close>

lemma handleStart_simps:
  "gameState (handleStart b w) =
     (gameState w)\<lparr>isPlaying := True, briefing := b, currentGate := 0, score := 0, time := 0,
                   isGameOver := False\<rparr>"
  "craft (handleStart b w) = craft w"
  "camera (handleStart b w) = camera w"
  "showConfig (handleStart b w) = False"
  by (simp_all add: handleStart_def handleStart_resume_def handleStart_request_def)

lemma not_racing_initialWorld: "\<not> racing (gameState initialWorld)"
  by (simp add: initialWorld_def initialGameState_def racing_def)

text \<open>
  Claim C6, as amended. \<^verbatim>\<open>handleStart\<close> sets \<^verbatim>\<open>score\<close> to 0, \<^verbatim>\<open>currentGate\<close> to 0,
  \<^verbatim>\<open>isGameOver\<close> to false and \<^verbatim>\<open>isPlaying\<close> to true, and does not write the craft state.
  The craft state is created at the spawn pose, position \<open>(0, 1.5, -8)\<close>, zero velocity,
  heading \<open>(0, \<pi>, 0)\<close>, and no frame before the first start moves it, so the first race
  starts from the spawn pose.
\<close>

theorem start_resets_race:
  "score (gameState (handleStart b w)) = 0
   \<and> currentGate (gameState (handleStart b w)) = 0
   \<and> \<not> isGameOver (gameState (handleStart b w))
   \<and> isPlaying (gameState (handleStart b w))
   \<and> craft (handleStart b w) = craft w
   \<and> craft (handleStart b (frames ps initialWorld)) = spawn
   \<and> position spawn = Vector3 0 1.5 (- 8)
   \<and> velocity spawn = Vector3 0 0 0
   \<and> rotation spawn = Euler 0 pi 0"
  by (simp add: handleStart_simps frames_not_racing [OF not_racing_initialWorld])
     (simp add: initialWorld_def spawn_def)

text \<open>The frame that finishes a race beside the last gate leaves the craft there.\<close>

lemma finish_example:
  "gameState (useFrame initialProps (raceAt 4 400 (restingAt (Vector3 0.5 2 (- 75)))))
     = initialGameState\<lparr>isPlaying := False, currentGate := 4, score := 400, isGameOver := True\<rparr>"
  "craft (useFrame initialProps (raceAt 4 400 (restingAt (Vector3 0.5 2 (- 75)))))
     = restingAt (Vector3 0.5 2 (- 75))"
proof -
  let ?p = "Vector3 0.5 2 (- 75)"
  have a: "lengthSq ?p \<le> 22500" by (simp add: lengthSq_def)
  have s: "boundaryEnforcement False (physicsUpdate initialControls initialShipConfig (restingAt ?p))
             = restingAt ?p"
    by (simp only: physicsUpdate_resting free_inside [OF a])
  have d: "distanceTo ?p (Vector3 0 2 (- 75)) < 1.2 * (1 + 0.5)"
    by (rule distanceTo_less) (simp_all add: distanceToSquared_def Let_def)
  have g: "gateDetection courseGates 1 ?p
             (initialGameState\<lparr>isPlaying := True, currentGate := 4, score := 400\<rparr>)
           = initialGameState\<lparr>isPlaying := False, currentGate := 4, score := 400, isGameOver := True\<rparr>"
    using d by (simp add: gateDetection_def gateUpdate_def gateAt_def courseGates_def GATE_DETECTION_RADIUS_def
                  initialGameState_def)
  show "gameState (useFrame initialProps (raceAt 4 400 (restingAt ?p)))
     = initialGameState\<lparr>isPlaying := False, currentGate := 4, score := 400, isGameOver := True\<rparr>"
    apply (subst useFrame_racing [OF racing_raceAt])
    apply (simp only: raceAt_simps initialProps_simps s restingAt_simps g)
    apply simp
    done
  show "craft (useFrame initialProps (raceAt 4 400 (restingAt ?p))) = restingAt ?p"
    apply (subst useFrame_racing [OF racing_raceAt])
    apply (simp only: raceAt_simps initialProps_simps s)
    apply simp
    done
qed

text \<open>
  Claim C6 as stated fails: after a finished race \<^verbatim>\<open>handleStart\<close> leaves the craft where
  the race ended, here at \<open>(0.5, 2, -75)\<close>, not at the spawn point.
\<close>

theorem start_resets_craft_counterexample:
  "isGameOver (gameState (useFrame initialProps (raceAt 4 400 (restingAt (Vector3 0.5 2 (- 75))))))
   \<and> \<not> isPlaying (gameState (useFrame initialProps (raceAt 4 400 (restingAt (Vector3 0.5 2 (- 75))))))
   \<and> position (craft (handleStart ''Go''
        (useFrame initialProps (raceAt 4 400 (restingAt (Vector3 0.5 2 (- 75)))))))
       = Vector3 0.5 2 (- 75)
   \<and> position (craft (handleStart ''Go''
        (useFrame initialProps (raceAt 4 400 (restingAt (Vector3 0.5 2 (- 75)))))))
       \<noteq> Vector3 0 1.5 (- 8)"
  unfolding handleStart_simps finish_example restingAt_simps
  by (simp add: initialGameState_def)

text \<open>A restart from a race under way at the last gate, and a first start after two idle
  frames.\<close>

theorem start_resets_race_witness:
  "score (gameState (handleStart ''Go'' (raceAt 4 400 (restingAt (Vector3 0.5 2 (- 75)))))) = 0
   \<and> currentGate (gameState (handleStart ''Go'' (raceAt 4 400 (restingAt (Vector3 0.5 2 (- 75)))))) = 0
   \<and> craft (handleStart ''Go'' (frames [initialProps, initialProps] initialWorld)) = spawn"
  using start_resets_race [of "''Go''" "raceAt 4 400 (restingAt (Vector3 0.5 2 (- 75)))"
      "[initialProps, initialProps]"]
  by blast

text \<open>
  Claim C7 as stated fails: \<^verbatim>\<open>handleStart\<close> has no guard, and during a race with one gate
  passed it takes \<^verbatim>\<open>score\<close> from 100 to 0 and \<^verbatim>\<open>currentGate\<close> from 1 to 0.
\<close>

theorem start_while_racing_counterexample:
  "racing (gameState (raceAt 1 100 spawn))
   \<and> score (gameState (raceAt 1 100 spawn)) = 100
   \<and> currentGate (gameState (raceAt 1 100 spawn)) = 1
   \<and> score (gameState (handleStart ''Go'' (raceAt 1 100 spawn))) = 0
   \<and> currentGate (gameState (handleStart ''Go'' (raceAt 1 100 spawn))) = 0
   \<and> gameState (handleStart ''Go'' (raceAt 1 100 spawn)) \<noteq> gameState (raceAt 1 100 spawn)"
proof -
  have "score (gameState (handleStart ''Go'' (raceAt 1 100 spawn)))
          \<noteq> score (gameState (raceAt 1 100 spawn))"
    by (simp add: handleStart_simps raceAt_simps)
  then have "gameState (handleStart ''Go'' (raceAt 1 100 spawn)) \<noteq> gameState (raceAt 1 100 spawn)"
    by metis
  with racing_raceAt [of 1 100 spawn] show ?thesis
    by (simp add: handleStart_simps raceAt_simps)
qed

text \<open>
  Claim C7, as amended. \<^verbatim>\<open>handleStart\<close> during a race that is Racing changes no craft
  state and keeps \<^verbatim>\<open>isPlaying\<close> true and \<^verbatim>\<open>isGameOver\<close> false, but it sets
  \<^verbatim>\<open>currentGate\<close>, \<^verbatim>\<open>score\<close> and \<^verbatim>\<open>time\<close> to 0, replaces the briefing and hides the
  menu; it changes nothing exactly when \<^verbatim>\<open>currentGate\<close>, \<^verbatim>\<open>score\<close> and \<^verbatim>\<open>time\<close> are 0
  already, the briefing is the text received and the menu is hidden.
\<close>

theorem start_while_racing:
  assumes "racing (gameState w)"
  shows "isPlaying (gameState (handleStart b w)) \<and> \<not> isGameOver (gameState (handleStart b w))
         \<and> craft (handleStart b w) = craft w
         \<and> currentGate (gameState (handleStart b w)) = 0
         \<and> score (gameState (handleStart b w)) = 0
         \<and> totalGates (gameState (handleStart b w)) = totalGates (gameState w)
         \<and> time (gameState (handleStart b w)) = 0
         \<and> briefing (gameState (handleStart b w)) = b
         \<and> \<not> showConfig (handleStart b w)
         \<and> (handleStart b w = w \<longleftrightarrow>
              currentGate (gameState w) = 0 \<and> score (gameState w) = 0 \<and> time (gameState w) = 0
              \<and> briefing (gameState w) = b \<and> \<not> showConfig w)"
proof -
  have "handleStart b w = w \<longleftrightarrow>
          currentGate (gameState w) = 0 \<and> score (gameState w) = 0 \<and> time (gameState w) = 0
          \<and> briefing (gameState w) = b \<and> \<not> showConfig w"
    using assms
    by (cases w, cases "gameState w")
       (auto simp add: handleStart_def handleStart_resume_def handleStart_request_def racing_def)
  then show ?thesis by (simp add: handleStart_simps)
qed

text \<open>The race of the counterexample.\<close>

theorem start_while_racing_witness:
  "racing (gameState (raceAt 1 100 spawn))
   \<and> isPlaying (gameState (handleStart ''Go'' (raceAt 1 100 spawn)))
   \<and> craft (handleStart ''Go'' (raceAt 1 100 spawn)) = spawn
   \<and> score (gameState (handleStart ''Go'' (raceAt 1 100 spawn))) = 0
   \<and> handleStart ''Go'' (raceAt 1 100 spawn) \<noteq> raceAt 1 100 spawn"
proof -
  have "handleStart ''Go'' (raceAt 1 100 spawn) \<noteq> raceAt 1 100 spawn"
    using start_while_racing [OF racing_raceAt, of "''Go''" 1 100 spawn]
    by (simp add: raceAt_simps)
  with start_while_racing [OF racing_raceAt, of "''Go''" 1 100 spawn]
    racing_raceAt [of 1 100 spawn]
  show ?thesis by (simp add: raceAt_simps(2))
qed


subsection \<open>Invariant of a run of frames\<close>







text \<open>A run with a render before every callback is a run of \<open>frames\<close>.\<close>

lemma callbacks_rendered: "callbacks snap (map (Pair True) ps) w = frames ps w"
  by (induction ps arbitrary: snap w) (simp_all add: useFrame_def)



















subsection \<open>Camera\<close>

text \<open>
  Claim C9, as amended. In free mode, in every frame whose callback reads a Racing race
  state, the new camera position is \<open>lerp previous (craft position + R (0, 1.5, 6)) 0.12\<close>,
  where \<open>R\<close> rotates by the rotation of the craft and position and rotation are those
  the frame has just computed, and the camera looks at that craft position itself. In a
  frame whose callback reads any other race state the camera is left as it is. With a
  render that is up to date, the state read is the current race state.
\<close>

theorem chase_camera_while_racing:
  "(racing snap \<and> \<not> arEnabled p \<longrightarrow>
      cam_position (camera (frameCallback snap p w))
        = lerp (cam_position (camera w))
               (add (position (craft (frameCallback snap p w)))
                    (applyEuler (Vector3 0 1.5 6) (rotation (craft (frameCallback snap p w)))))
               0.12
      \<and> cam_lookAt (camera (frameCallback snap p w))
          = Some (position (craft (frameCallback snap p w))))
   \<and> (\<not> racing snap \<longrightarrow> camera (frameCallback snap p w) = camera w)"
  by (simp add: frameCallback_def cameraHandling_def racing_def Let_def)


text \<open>
  Claim C9 as stated, for every frame, fails: the callback returns at once while the race
  is not Racing, so before the start the camera stays at \<open>(0, 1.6, 5)\<close>, while the
  interpolation would put it at \<open>(0, 1.768, 2.72)\<close>, and no look-at target is set.
\<close>

theorem chase_camera_every_frame_counterexample:
  "\<not> arEnabled initialProps
   \<and> cam_position (camera (useFrame initialProps initialWorld)) = Vector3 0 1.6 5
   \<and> lerp (cam_position (camera initialWorld))
          (add (position (craft (useFrame initialProps initialWorld)))
               (applyEuler (Vector3 0 1.5 6) (rotation (craft (useFrame initialProps initialWorld)))))
          0.12 = Vector3 0 1.768 2.72
   \<and> cam_position (camera (useFrame initialProps initialWorld))
       \<noteq> lerp (cam_position (camera initialWorld))
          (add (position (craft (useFrame initialProps initialWorld)))
               (applyEuler (Vector3 0 1.5 6) (rotation (craft (useFrame initialProps initialWorld)))))
          0.12
   \<and> cam_lookAt (camera (useFrame initialProps initialWorld))
       \<noteq> Some (position (craft (useFrame initialProps initialWorld)))"
proof -
  have u: "useFrame initialProps initialWorld = initialWorld"
    by (rule useFrame_not_racing [OF not_racing_initialWorld])
  have w: "camera initialWorld = initialCamera" "craft initialWorld = spawn"
    by (simp_all add: initialWorld_def)
  have s: "position spawn = Vector3 0 1.5 (- 8)" "rotation spawn = Euler 0 pi 0"
    by (simp_all add: spawn_def)
  show ?thesis
    unfolding u w s applyEuler_spawn_off
    by (simp add: initialProps_simps initialCamera_def lerp_def add_def)
qed

text \<open>The first frame of a race from the spawn pose, and a frame before the start.\<close>

theorem chase_camera_while_racing_witness:
  "racing (gameState (raceAt 0 0 spawn)) \<and> \<not> arEnabled initialProps
   \<and> cam_position (camera (useFrame initialProps (raceAt 0 0 spawn))) = Vector3 0 1.768 2.72
   \<and> cam_lookAt (camera (useFrame initialProps (raceAt 0 0 spawn))) = Some (Vector3 0 1.5 (- 8))
   \<and> \<not> racing (gameState initialWorld)
   \<and> camera (useFrame initialProps initialWorld) = initialCamera"
proof -
  have a: "\<not> arEnabled initialProps" by (simp add: initialProps_simps)
  have sp: "spawn = restingAt (Vector3 0 1.5 (- 8))" by (simp add: restingAt_def spawn_def)
  have "boundaryEnforcement False (physicsUpdate initialControls initialShipConfig spawn) = spawn"
    unfolding sp by (simp only: physicsUpdate_resting) (rule free_inside, simp add: lengthSq_def)
  then have c: "craft (useFrame initialProps (raceAt 0 0 spawn)) = spawn"
    by (subst useFrame_racing [OF racing_raceAt]) (simp add: raceAt_simps(2) initialProps_simps)
  have s: "position spawn = Vector3 0 1.5 (- 8)" "rotation spawn = Euler 0 pi 0"
    by (simp_all add: spawn_def)
  have u: "frameCallback (gameState (raceAt 0 0 spawn)) initialProps (raceAt 0 0 spawn)
             = useFrame initialProps (raceAt 0 0 spawn)"
    "frameCallback (gameState initialWorld) initialProps initialWorld
             = useFrame initialProps initialWorld"
    by (simp_all only: useFrame_def)
  from chase_camera_while_racing [of "gameState (raceAt 0 0 spawn)" initialProps "raceAt 0 0 spawn"]
    racing_raceAt [of 0 0 spawn] a
  have "cam_position (camera (useFrame initialProps (raceAt 0 0 spawn)))
          = lerp (cam_position (camera (raceAt 0 0 spawn)))
               (add (position (craft (useFrame initialProps (raceAt 0 0 spawn))))
                    (applyEuler (Vector3 0 1.5 6)
                       (rotation (craft (useFrame initialProps (raceAt 0 0 spawn))))))
               0.12"
    and "cam_lookAt (camera (useFrame initialProps (raceAt 0 0 spawn)))
          = Some (position (craft (useFrame initialProps (raceAt 0 0 spawn))))"
    unfolding u by blast+
  then have "cam_position (camera (useFrame initialProps (raceAt 0 0 spawn))) = Vector3 0 1.768 2.72"
    and "cam_lookAt (camera (useFrame initialProps (raceAt 0 0 spawn))) = Some (Vector3 0 1.5 (- 8))"
    unfolding c s applyEuler_spawn_off raceAt_simps
    by (simp_all add: initialCamera_def lerp_def add_def)
  moreover
  from chase_camera_while_racing [of "gameState initialWorld" initialProps initialWorld]
    not_racing_initialWorld
  have "camera (useFrame initialProps initialWorld) = initialCamera"
    unfolding u by (simp add: initialWorld_def)
  ultimately show ?thesis
    using racing_raceAt [of 0 0 spawn] a not_racing_initialWorld by blast
qed

end
